theory Spec2Isabelle
  imports Complex_Main
begin

section \<open>Data model (models/types.ts, okx/types.ts)\<close>

text \<open>
  JavaScript numbers are modelled as \<^typ>\<open>real\<close> (prices, sizes, fees, PnL) and
  as \<^typ>\<open>int\<close> (millisecond timestamps). A numeric string field of a raw record
  (\<open>fillPx\<close>, \<open>fillSz\<close>, \<open>fee\<close>, \<open>ts\<close>, \<open>balChg\<close>, \<open>notional\<close>, \<open>ctVal\<close>) is
  represented by the number that \<open>parseFloat\<close> / \<open>parseInt\<close> / \<open>SafeParsers\<close> reads from
  it; the parsers themselves are modelled separately in the section on SafeParsers.
  Rounding of IEEE doubles and NaN are outside this model.
\<close>

datatype TradeDirection = LONG | SHORT

datatype PositionStatus = OPEN_S | CLOSED_S | LIQUIDATED_S

datatype Action = OPEN | ADD | REDUCE | CLOSE | MARKET_ANALYSIS

record TimelineEvent =
  timestamp :: int
  action :: Action
  esize :: real
  price :: real
  enotes :: "string option"
  etradeId :: "string option"
  eorderId :: "string option"
  efee :: "real option"
  efeeCcy :: "string option"

text \<open>\<open>RawFill\<close> and \<open>OkxFill\<close> share every field the processors read.\<close>

record RawFill =
  instId :: string
  tradeId :: string
  ordId :: string
  side :: string
  posSide :: string
  fillPx :: real
  fillSz :: real
  fee :: real
  feeCcy :: string
  ts :: int

record Bill =
  b_instId :: string
  b_balChg :: real
  b_ts :: int
  b_type :: string

record InstrumentDetail =
  i_instId :: string
  ctVal :: real
  baseCcy :: string
  quoteCcy :: string

text \<open>\<open>RawPositionRisk\<close> (Binance) and \<open>OkxPosition\<close>: symbol, position side, notional.\<close>

record RawPositionRisk =
  r_symbol :: string
  positionSide :: string
  notional :: real

record StandardizedTrade =
  trade_id :: string
  symbol :: string
  direction :: TradeDirection
  status :: PositionStatus
  entryTime :: int
  exitTime :: int
  durationMs :: int
  totalSize :: real
  totalValue :: real
  averageEntryPrice :: real
  averageExitPrice :: real
  realizedPnl :: real
  totalCommission :: real
  totalFundingFee :: real
  netPnl :: real
  pnlPercentage :: real
  timeline :: "TimelineEvent list"
  tradeIds :: "string list"
  orderIds :: "string list"
  notes_t :: string
  tags :: "string list"
  currentPositionSize :: real
  closingSizeAccumulator :: real
  closingValueAccumulator :: real
  rawFills :: "RawFill list"
  rawBills :: "Bill list"
  currentNotionalValue :: "real option"
  pnlCurrency :: string
  feeCurrency :: string
  valueCurrency :: string

definition FLOATING_POINT_TOLERANCE :: real where
  "FLOATING_POINT_TOLERANCE = 1 / 1000000000"

section \<open>JavaScript built-ins used by the processors\<close>

definition lowerChar :: "char \<Rightarrow> char" where
  "lowerChar c =
     (case map_of (zip ''ABCDEFGHIJKLMNOPQRSTUVWXYZ'' ''abcdefghijklmnopqrstuvwxyz'') c of
        Some d \<Rightarrow> d
      | None \<Rightarrow> c)"

definition toLowerCase :: "string \<Rightarrow> string" where
  "toLowerCase s = map lowerChar s"

fun startsWith :: "string \<Rightarrow> string \<Rightarrow> bool" where
  "startsWith s [] = True"
| "startsWith [] (d # ds) = False"
| "startsWith (c # cs) (d # ds) = (c = d \<and> startsWith cs ds)"

fun str_includes :: "string \<Rightarrow> string \<Rightarrow> bool" where
  "str_includes [] sub = (sub = [])"
| "str_includes (c # cs) sub = (startsWith (c # cs) sub \<or> str_includes cs sub)"

fun join :: "string \<Rightarrow> string list \<Rightarrow> string" where
  "join sep [] = []"
| "join sep [x] = x"
| "join sep (x # y # ys) = x @ sep @ join sep (y # ys)"

fun string_of_nat :: "nat \<Rightarrow> string" where
  "string_of_nat n =
     (if n < 10 then [''0123456789'' ! n]
      else string_of_nat (n div 10) @ [''0123456789'' ! (n mod 10)])"

declare string_of_nat.simps [simp del]

definition string_of_int :: "int \<Rightarrow> string" where
  "string_of_int i = (if i < 0 then ''-'' @ string_of_nat (nat (- i)) else string_of_nat (nat i))"

text \<open>
  \<open>String.prototype.localeCompare\<close> is locale-sensitive; it is modelled by the
  lexicographic order on character codes, so that a proper prefix sorts first.
\<close>

fun localeCompare :: "string \<Rightarrow> string \<Rightarrow> int" where
  "localeCompare [] [] = 0"
| "localeCompare [] (d # ds) = - 1"
| "localeCompare (c # cs) [] = 1"
| "localeCompare (c # cs) (d # ds) =
     (if (of_char c :: nat) < of_char d then - 1
      else if (of_char d :: nat) < of_char c then 1
      else localeCompare cs ds)"

text \<open>
  \<open>Array.prototype.sort(cmp)\<close> is stable: elements that compare equal keep their
  input order. It is modelled by insertion sort from the right.
\<close>

fun insort_js :: "('a \<Rightarrow> 'a \<Rightarrow> int) \<Rightarrow> 'a \<Rightarrow> 'a list \<Rightarrow> 'a list" where
  "insort_js cmp x [] = [x]"
| "insort_js cmp x (y # ys) = (if cmp x y \<le> 0 then x # y # ys else y # insort_js cmp x ys)"

definition sort_js :: "('a \<Rightarrow> 'a \<Rightarrow> int) \<Rightarrow> 'a list \<Rightarrow> 'a list" where
  "sort_js cmp xs = foldr (insort_js cmp) xs []"

text \<open>
  A JavaScript \<open>Map\<close> iterates in insertion order: \<open>set\<close> on a present key keeps the
  key's place, on a new key appends; \<open>delete\<close> removes the entry.
\<close>

fun map_get :: "('k \<times> 'v) list \<Rightarrow> 'k \<Rightarrow> 'v option" where
  "map_get [] k = None"
| "map_get ((k', v) # m) k = (if k' = k then Some v else map_get m k)"

fun map_set :: "'k \<Rightarrow> 'v \<Rightarrow> ('k \<times> 'v) list \<Rightarrow> ('k \<times> 'v) list" where
  "map_set k v [] = [(k, v)]"
| "map_set k v ((k', v') # m) = (if k' = k then (k, v) # m else (k', v') # map_set k v m)"

fun map_delete :: "'k \<Rightarrow> ('k \<times> 'v) list \<Rightarrow> ('k \<times> 'v) list" where
  "map_delete k [] = []"
| "map_delete k ((k', v') # m) = (if k' = k then m else (k', v') # map_delete k m)"

definition map_values :: "('k \<times> 'v) list \<Rightarrow> 'v list" where
  "map_values m = map snd m"

text \<open>\<open>instruments.forEach(inst => this.instruments.set(inst.instId, inst))\<close>\<close>

definition indexInstruments :: "InstrumentDetail list \<Rightarrow> (string \<times> InstrumentDetail) list" where
  "indexInstruments insts = foldl (\<lambda>m inst. map_set (i_instId inst) inst m) [] insts"

section \<open>TimelineUtils.ts\<close>

definition truthy :: "string option list \<Rightarrow> string list" where
  "truthy xs = concat (map (\<lambda>x. case x of None \<Rightarrow> [] | Some s \<Rightarrow> (if s = [] then [] else [s])) xs)"

definition feeOrZero :: "TimelineEvent \<Rightarrow> real" where
  "feeOrZero e = (case efee e of None \<Rightarrow> 0 | Some f \<Rightarrow> f)"

text \<open>
  \<open>mergeGroup(group)\<close>: the group is never empty, so it is passed as its first event
  and the remaining ones.
\<close>

definition mergeGroup :: "TimelineEvent \<Rightarrow> TimelineEvent list \<Rightarrow> TimelineEvent" where
  "mergeGroup first others =
     (if others = [] then first
      else
        let group = first # others;
            totalVal = sum_list (map (\<lambda>e. price e * esize e) group);
            totalSz = sum_list (map esize group);
            totalFee = sum_list (map feeOrZero group);
            avgPrice = (if totalSz > 0 then totalVal / totalSz else 0);
            finalAction =
              (if list_ex (\<lambda>e. action e = OPEN) group then OPEN
               else if list_ex (\<lambda>e. action e = CLOSE) group then CLOSE
               else action first)
        in first\<lparr> timestamp := timestamp first,
                  action := finalAction,
                  price := avgPrice,
                  esize := totalSz,
                  efee := Some totalFee,
                  etradeId := Some (join '','' (truthy (map etradeId group))),
                  eorderId := Some (join '','' (truthy (map eorderId group))),
                  enotes := Some (join ''; '' (truthy (map enotes group))) \<rparr>)"

definition canMerge :: "int \<Rightarrow> TimelineEvent \<Rightarrow> TimelineEvent \<Rightarrow> bool" where
  "canMerge mergeWindowMs prev current =
     (let isSameAction = (action current = action prev);
          isWithinWindow = (timestamp current - timestamp prev < mergeWindowMs);
          isOpenSequence = ((action prev = OPEN \<and> action current = ADD) \<or>
                            (action prev = ADD \<and> action current = OPEN));
          isCloseSequence = ((action prev = REDUCE \<and> action current = CLOSE) \<or>
                             (action prev = CLOSE \<and> action current = REDUCE))
      in isWithinWindow \<and> (isSameAction \<or> isOpenSequence \<or> isCloseSequence))"

text \<open>The \<open>for\<close> loop: \<open>agg\<close> is \<open>aggregated\<close>, \<open>g # gs\<close> is \<open>currentGroup\<close>.\<close>

fun groupLoop ::
  "int \<Rightarrow> TimelineEvent list \<Rightarrow> TimelineEvent \<Rightarrow> TimelineEvent list \<Rightarrow> TimelineEvent list
     \<Rightarrow> TimelineEvent list" where
  "groupLoop w agg g gs [] = agg @ [mergeGroup g gs]"
| "groupLoop w agg g gs (current # rest) =
     (if canMerge w (last (g # gs)) current
      then groupLoop w agg g (gs @ [current]) rest
      else groupLoop w (agg @ [mergeGroup g gs]) current [] rest)"

definition orEmpty :: "string option \<Rightarrow> string" where
  "orEmpty x = (case x of None \<Rightarrow> [] | Some s \<Rightarrow> s)"

definition eventCmp :: "TimelineEvent \<Rightarrow> TimelineEvent \<Rightarrow> int" where
  "eventCmp a b =
     (if timestamp a \<noteq> timestamp b then timestamp a - timestamp b
      else localeCompare (orEmpty (etradeId a)) (orEmpty (etradeId b)))"

definition aggregateEventsW :: "TimelineEvent list \<Rightarrow> int \<Rightarrow> TimelineEvent list" where
  "aggregateEventsW executionEvents mergeWindowMs =
     (if length executionEvents < 2 then executionEvents
      else case sort_js eventCmp executionEvents of
             [] \<Rightarrow> []
           | s0 # rest \<Rightarrow> groupLoop mergeWindowMs [] s0 [] rest)"

definition aggregateEvents :: "TimelineEvent list \<Rightarrow> TimelineEvent list" where
  "aggregateEvents executionEvents = aggregateEventsW executionEvents 60000"

section \<open>Timeline aggregation private to the Spot, Coin-M and Margin processors\<close>

text \<open>
  \<open>_aggregateTimelineEvents\<close> and \<open>_mergeEvents\<close> are repeated verbatim in
  BinanceSpotTradeProcessor, BinanceCMFuturesTradeProcessor and BinanceMarginTradeProcessor.
  They do not sort, merge only equal actions or a REDUCE/CLOSE pair, and prefer CLOSE over
  OPEN. The processors build every event with a fee, which \<open>feeOrZero\<close> reads.
\<close>

definition mergeEvents :: "TimelineEvent \<Rightarrow> TimelineEvent list \<Rightarrow> TimelineEvent" where
  "mergeEvents first others =
     (if others = [] then first
      else
        let events = first # others;
            totalVal = sum_list (map (\<lambda>e. price e * esize e) events);
            totalSz = sum_list (map esize events);
            totalFee = sum_list (map feeOrZero events);
            avgPrice = (if totalSz > 0 then totalVal / totalSz else 0);
            mergedAction =
              (if list_ex (\<lambda>e. action e = CLOSE) events then CLOSE
               else if list_ex (\<lambda>e. action e = OPEN) events then OPEN
               else action first);
            joined = join ''; '' (truthy (map enotes events))
        in first\<lparr> timestamp := timestamp first,
                  price := avgPrice,
                  esize := totalSz,
                  efee := Some totalFee,
                  action := mergedAction,
                  enotes := (if joined = [] then None else Some joined) \<rparr>)"

definition canMergeLocal :: "TimelineEvent \<Rightarrow> TimelineEvent \<Rightarrow> bool" where
  "canMergeLocal prev current =
     (let timeDiff = timestamp current - timestamp prev;
          isSameAction = (action current = action prev);
          isCloseSequence = ((action prev = REDUCE \<and> action current = CLOSE) \<or>
                             (action prev = CLOSE \<and> action current = REDUCE));
          canMergeAction = (isSameAction \<or> isCloseSequence)
      in canMergeAction \<and> timeDiff < 60000)"

fun groupLoopLocal ::
  "TimelineEvent list \<Rightarrow> TimelineEvent \<Rightarrow> TimelineEvent list \<Rightarrow> TimelineEvent list
     \<Rightarrow> TimelineEvent list" where
  "groupLoopLocal agg g gs [] = agg @ [mergeEvents g gs]"
| "groupLoopLocal agg g gs (current # rest) =
     (if canMergeLocal (last (g # gs)) current
      then groupLoopLocal agg g (gs @ [current]) rest
      else groupLoopLocal (agg @ [mergeEvents g gs]) current [] rest)"

definition aggregateTimelineEvents :: "TimelineEvent list \<Rightarrow> TimelineEvent list" where
  "aggregateTimelineEvents tline =
     (case tline of
        [] \<Rightarrow> tline
      | [e] \<Rightarrow> tline
      | t0 # rest \<Rightarrow> groupLoopLocal [] t0 [] rest)"

section \<open>Helpers shared by the processors\<close>

definition fillCmpTs :: "RawFill \<Rightarrow> RawFill \<Rightarrow> int" where
  "fillCmpTs a b = ts a - ts b"

definition lastActionReduceOrClose :: "StandardizedTrade \<Rightarrow> bool" where
  "lastActionReduceOrClose t =
     (timeline t \<noteq> [] \<and>
      (action (last (timeline t)) = REDUCE \<or> action (last (timeline t)) = CLOSE))"

definition fillEvent :: "RawFill \<Rightarrow> Action \<Rightarrow> real \<Rightarrow> real \<Rightarrow> TimelineEvent" where
  "fillEvent fill act sz fe =
     \<lparr> timestamp = ts fill, action = act, esize = sz, price = fillPx fill, enotes = None,
       etradeId = Some (tradeId fill), eorderId = Some (ordId fill), efee = Some fe,
       efeeCcy = Some (feeCcy fill) \<rparr>"

definition pushOrderId :: "string \<Rightarrow> string list \<Rightarrow> string list" where
  "pushOrderId oid ids = (if oid \<in> set ids then ids else ids @ [oid])"

text \<open>The object literal common to every \<open>_createNewTrade\<close> / \<open>initializeTrade\<close>.\<close>

definition newTrade ::
  "string \<Rightarrow> string \<Rightarrow> TradeDirection \<Rightarrow> int \<Rightarrow> string list \<Rightarrow> string \<Rightarrow> string \<Rightarrow> string
     \<Rightarrow> StandardizedTrade" where
  "newTrade tid smb dir t0 tgs pnlCcy feeC valCcy =
     \<lparr> trade_id = tid, symbol = smb, direction = dir, status = OPEN_S,
       entryTime = t0, exitTime = 0, durationMs = 0,
       totalSize = 0, totalValue = 0, averageEntryPrice = 0, averageExitPrice = 0,
       realizedPnl = 0, totalCommission = 0, totalFundingFee = 0, netPnl = 0, pnlPercentage = 0,
       timeline = [], tradeIds = [], orderIds = [], notes_t = [], tags = tgs,
       currentPositionSize = 0, closingSizeAccumulator = 0, closingValueAccumulator = 0,
       rawFills = [], rawBills = [], currentNotionalValue = None,
       pnlCurrency = pnlCcy, feeCurrency = feeC, valueCurrency = valCcy \<rparr>"

text \<open>\<open>_closeTrade\<close> of the Spot, Coin-M and Margin processors (the same text in each).\<close>

definition closeTrade :: "StandardizedTrade \<Rightarrow> int \<Rightarrow> StandardizedTrade" where
  "closeTrade t exitTimestamp =
     t\<lparr> status := CLOSED_S,
        exitTime := exitTimestamp,
        durationMs := exitTimestamp - entryTime t,
        averageExitPrice :=
          (if closingSizeAccumulator t > 0
           then closingValueAccumulator t / closingSizeAccumulator t else 0) \<rparr>"

text \<open>The tail of every \<open>_updateTradeWithFill\<close>: commission, timeline and id bookkeeping.\<close>

definition recordFill :: "StandardizedTrade \<Rightarrow> RawFill \<Rightarrow> TimelineEvent \<Rightarrow> StandardizedTrade" where
  "recordFill t fill e =
     t\<lparr> totalCommission := totalCommission t + feeOrZero e,
        timeline := timeline t @ [e],
        tradeIds := tradeIds t @ [tradeId fill],
        rawFills := rawFills t @ [fill],
        orderIds := pushOrderId (ordId fill) (orderIds t) \<rparr>"

section \<open>BinanceSpotTradeProcessor.ts\<close>

definition spot_createNewTrade ::
  "(string \<times> InstrumentDetail) list \<Rightarrow> RawFill \<Rightarrow> StandardizedTrade" where
  "spot_createNewTrade instruments fill =
     (let quoteC = (case map_get instruments (instId fill) of
                      Some inst \<Rightarrow> quoteCcy inst | None \<Rightarrow> ''USDT'')
      in newTrade (instId fill @ ''-spot-'' @ string_of_int (ts fill)) (instId fill) LONG (ts fill)
           [''spot''] quoteC (feeCcy fill) quoteC)"

definition spot_updateTradeWithFill :: "StandardizedTrade \<Rightarrow> RawFill \<Rightarrow> StandardizedTrade" where
  "spot_updateTradeWithFill t fill =
     (let isBuy = (toLowerCase (side fill) = ''buy'');
          fillPrice = fillPx fill;
          fillSize = fillSz fill
      in if isBuy then
           let act = (if length (timeline t) > 0 then ADD else OPEN);
               newCumulativeSize = totalSize t + fillSize;
               newCumulativeCost = totalSize t * averageEntryPrice t + fillSize * fillPrice
           in recordFill
                (t\<lparr> averageEntryPrice := newCumulativeCost / newCumulativeSize,
                    totalSize := newCumulativeSize,
                    totalValue := newCumulativeCost,
                    currentPositionSize := currentPositionSize t + fillSize \<rparr>)
                fill (fillEvent fill act fillSize (fee fill))
         else
           let sizeReduced = min fillSize (currentPositionSize t);
               pnl = (fillPrice - averageEntryPrice t) * sizeReduced;
               cps = currentPositionSize t - sizeReduced;
               closes = (cps \<le> FLOATING_POINT_TOLERANCE)
           in recordFill
                (t\<lparr> realizedPnl := realizedPnl t + pnl,
                    currentPositionSize := (if closes then 0 else cps),
                    closingSizeAccumulator := closingSizeAccumulator t + sizeReduced,
                    closingValueAccumulator := closingValueAccumulator t + sizeReduced * fillPrice \<rparr>)
                fill (fillEvent fill (if closes then CLOSE else REDUCE) fillSize (fee fill)))"

text \<open>One iteration of the loop of \<open>_processFillsAndAggregateTrades\<close>.\<close>

definition spot_step ::
  "(string \<times> InstrumentDetail) list
     \<Rightarrow> StandardizedTrade list \<times> (string \<times> StandardizedTrade) list \<Rightarrow> RawFill
     \<Rightarrow> StandardizedTrade list \<times> (string \<times> StandardizedTrade) list" where
  "spot_step instruments st fill =
     (let closedTrades = fst st; openPositions = snd st;
          positionKey = instId fill @ ''-spot'';
          isBuy = (toLowerCase (side fill) = ''buy'')
      in case map_get openPositions positionKey of
           None \<Rightarrow>
             if \<not> isBuy then st
             else
               let trade = spot_updateTradeWithFill (spot_createNewTrade instruments fill) fill
               in if currentPositionSize trade \<le> FLOATING_POINT_TOLERANCE
                     \<and> lastActionReduceOrClose trade
                  then (closedTrades @ [closeTrade trade (ts fill)], openPositions)
                  else (closedTrades, map_set positionKey trade openPositions)
         | Some trade0 \<Rightarrow>
             let trade = spot_updateTradeWithFill trade0 fill
             in if currentPositionSize trade \<le> FLOATING_POINT_TOLERANCE
                   \<and> lastActionReduceOrClose trade
                then (closedTrades @ [closeTrade trade (ts fill)],
                      map_delete positionKey openPositions)
                else (closedTrades, map_set positionKey trade openPositions))"

definition spot_processFills ::
  "(string \<times> InstrumentDetail) list \<Rightarrow> RawFill list
     \<Rightarrow> StandardizedTrade list \<times> (string \<times> StandardizedTrade) list" where
  "spot_processFills instruments fills = foldl (spot_step instruments) ([], []) fills"

definition spot_finalizeTrade :: "StandardizedTrade \<Rightarrow> StandardizedTrade" where
  "spot_finalizeTrade t =
     (let net = realizedPnl t - totalCommission t
      in t\<lparr> timeline := aggregateTimelineEvents (timeline t),
            netPnl := net,
            pnlPercentage := (if totalValue t > 0 then net / totalValue t else 0) \<rparr>)"

definition spot_processAllData ::
  "RawFill list \<Rightarrow> Bill list \<Rightarrow> InstrumentDetail list \<Rightarrow> RawPositionRisk list
     \<Rightarrow> StandardizedTrade list" where
  "spot_processAllData rawFillsIn rawBillsIn instrumentDetails rawPositionRisks =
     (let instruments = indexInstruments instrumentDetails;
          sorted = sort_js fillCmpTs rawFillsIn;
          res = spot_processFills instruments sorted;
          allTrades = fst res @ map_values (snd res)
      in map spot_finalizeTrade allTrades)"

section \<open>Funding bills and position risks (Binance processors)\<close>

definition BILL_TYPE_FUNDING_FEE :: string where
  "BILL_TYPE_FUNDING_FEE = ''FUNDING_FEE''"

text \<open>The window test written in every \<open>applyBillsAndRisks\<close>.\<close>

definition isRelevant :: "Bill \<Rightarrow> StandardizedTrade \<Rightarrow> bool" where
  "isRelevant bill t =
     (b_ts bill \<ge> entryTime t \<and> (status t = OPEN_S \<or> b_ts bill \<le> exitTime t))"

definition creditBill :: "Bill \<Rightarrow> StandardizedTrade \<Rightarrow> StandardizedTrade" where
  "creditBill bill t =
     t\<lparr> totalFundingFee := totalFundingFee t + b_balChg bill, rawBills := rawBills t @ [bill] \<rparr>"

text \<open>
  The inner loop over \<open>tradesBySymbol.get(bill.instId)\<close> with its \<open>break\<close>: the trades
  of the bill's symbol are visited in the order of \<open>allTrades\<close>, and the first relevant one
  is credited.
\<close>

fun creditFirst :: "Bill \<Rightarrow> StandardizedTrade list \<Rightarrow> StandardizedTrade list" where
  "creditFirst bill [] = []"
| "creditFirst bill (t # rest) =
     (if symbol t = b_instId bill \<and> isRelevant bill t
      then creditBill bill t # rest
      else t # creditFirst bill rest)"

definition binance_applyBills :: "Bill list \<Rightarrow> StandardizedTrade list \<Rightarrow> StandardizedTrade list" where
  "binance_applyBills bills allTrades =
     foldl (\<lambda>trades bill.
              if b_type bill = BILL_TYPE_FUNDING_FEE then creditFirst bill trades else trades)
       allTrades bills"

text \<open>
  The trades are mutated through \<open>allTrades\<close>, which lists the closed trades followed by
  the values of \<open>openPositions\<close>; the open ones are put back under their keys.
\<close>

definition rekey ::
  "(string \<times> StandardizedTrade) list \<Rightarrow> StandardizedTrade list
     \<Rightarrow> (string \<times> StandardizedTrade) list" where
  "rekey openPositions trades = zip (map fst openPositions) trades"

definition cm_applyRisks ::
  "RawPositionRisk list \<Rightarrow> (string \<times> StandardizedTrade) list
     \<Rightarrow> (string \<times> StandardizedTrade) list" where
  "cm_applyRisks risks openPositions =
     foldl (\<lambda>m rawRisk.
              let positionKey = r_symbol rawRisk @ ''-'' @ toLowerCase (positionSide rawRisk)
              in case map_get m positionKey of
                   None \<Rightarrow> m
                 | Some t \<Rightarrow> map_set positionKey (t\<lparr>currentNotionalValue := Some (notional rawRisk)\<rparr>) m)
       openPositions risks"

section \<open>BinanceCMFuturesTradeProcessor.ts\<close>

definition cm_createNewTrade ::
  "(string \<times> InstrumentDetail) list \<Rightarrow> RawFill \<Rightarrow> StandardizedTrade" where
  "cm_createNewTrade instruments fill =
     (let positionSide' = toLowerCase (posSide fill);
          fillSide = toLowerCase (side fill);
          instrument = map_get instruments (instId fill);
          pnlCcy = (case instrument of Some inst \<Rightarrow> baseCcy inst | None \<Rightarrow> ''Unknown'');
          valCcy = (case instrument of Some inst \<Rightarrow> quoteCcy inst | None \<Rightarrow> ''USD'');
          dir = (if positionSide' = ''long'' then LONG
                 else if positionSide' = ''short'' then SHORT
                 else if fillSide = ''buy'' then LONG else SHORT)
      in newTrade (instId fill @ ''-'' @ positionSide' @ ''-'' @ string_of_int (ts fill))
           (instId fill) dir (ts fill) [] pnlCcy (feeCcy fill) valCcy)"

definition cm_updateTradeWithFill ::
  "(string \<times> InstrumentDetail) list \<Rightarrow> StandardizedTrade \<Rightarrow> RawFill \<Rightarrow> StandardizedTrade" where
  "cm_updateTradeWithFill instruments t fill =
     (let fillSide = toLowerCase (side fill);
          fillPrice = fillPx fill;
          fillSizeContracts = fillSz fill;
          contractValueUsd = (case map_get instruments (instId fill) of
                                Some inst \<Rightarrow> ctVal inst | None \<Rightarrow> 100);
          fillNotionalUsd = fillSizeContracts * contractValueUsd;
          fillCostCoin = fillNotionalUsd / fillPrice;
          isCurrentLong = (direction t = LONG);
          isFillDirectionBuy = (fillSide = ''buy'')
      in if (isCurrentLong \<and> isFillDirectionBuy) \<or> (\<not> isCurrentLong \<and> \<not> isFillDirectionBuy) then
           let act = (if length (timeline t) > 0 then ADD else OPEN);
               previousCostCoin =
                 (if totalSize t > 0 \<and> averageEntryPrice t > 0
                  then totalValue t / averageEntryPrice t else 0);
               newTotalNotionalUsd = totalValue t + fillNotionalUsd;
               newTotalCostCoin = previousCostCoin + fillCostCoin
           in recordFill
                (t\<lparr> averageEntryPrice := newTotalNotionalUsd / newTotalCostCoin,
                    totalSize := totalSize t + fillSizeContracts,
                    totalValue := newTotalNotionalUsd,
                    currentPositionSize := currentPositionSize t + fillSizeContracts \<rparr>)
                fill (fillEvent fill act fillSizeContracts (fee fill))
         else
           let sizeReducedContracts = min fillSizeContracts (currentPositionSize t);
               notionalReducedUsd = sizeReducedContracts * contractValueUsd;
               pnlCoin =
                 (if direction t = LONG
                  then notionalReducedUsd * (1 / averageEntryPrice t - 1 / fillPrice)
                  else notionalReducedUsd * (1 / fillPrice - 1 / averageEntryPrice t));
               cps = currentPositionSize t - sizeReducedContracts;
               closes = (cps \<le> FLOATING_POINT_TOLERANCE)
           in recordFill
                (t\<lparr> realizedPnl := realizedPnl t + pnlCoin,
                    currentPositionSize := (if closes then 0 else cps),
                    closingSizeAccumulator := closingSizeAccumulator t + sizeReducedContracts,
                    closingValueAccumulator :=
                      closingValueAccumulator t + sizeReducedContracts * fillPrice \<rparr>)
                fill (fillEvent fill (if closes then CLOSE else REDUCE) fillSizeContracts (fee fill)))"

definition cm_step ::
  "(string \<times> InstrumentDetail) list
     \<Rightarrow> StandardizedTrade list \<times> (string \<times> StandardizedTrade) list \<Rightarrow> RawFill
     \<Rightarrow> StandardizedTrade list \<times> (string \<times> StandardizedTrade) list" where
  "cm_step instruments st fill =
     (let closedTrades = fst st; openPositions = snd st;
          positionKey = instId fill @ ''-'' @ posSide fill;
          fillSide = toLowerCase (side fill);
          positionSide' = toLowerCase (posSide fill);
          isOpeningFill = ((positionSide' = ''long'' \<and> fillSide = ''buy'') \<or>
                           (positionSide' = ''short'' \<and> fillSide = ''sell''))
      in case map_get openPositions positionKey of
           None \<Rightarrow>
             if \<not> isOpeningFill then st
             else
               let trade = cm_updateTradeWithFill instruments
                             (cm_createNewTrade instruments fill) fill
               in if currentPositionSize trade \<le> FLOATING_POINT_TOLERANCE
                     \<and> lastActionReduceOrClose trade
                  then (closedTrades @ [closeTrade trade (ts fill)], openPositions)
                  else (closedTrades, map_set positionKey trade openPositions)
         | Some trade0 \<Rightarrow>
             let trade = cm_updateTradeWithFill instruments trade0 fill
             in if currentPositionSize trade \<le> FLOATING_POINT_TOLERANCE
                   \<and> lastActionReduceOrClose trade
                then (closedTrades @ [closeTrade trade (ts fill)],
                      map_delete positionKey openPositions)
                else (closedTrades, map_set positionKey trade openPositions))"

definition cm_processFills ::
  "(string \<times> InstrumentDetail) list \<Rightarrow> RawFill list
     \<Rightarrow> StandardizedTrade list \<times> (string \<times> StandardizedTrade) list" where
  "cm_processFills instruments fills = foldl (cm_step instruments) ([], []) fills"

definition cm_applyBillsAndRisks ::
  "StandardizedTrade list \<Rightarrow> (string \<times> StandardizedTrade) list \<Rightarrow> Bill list
     \<Rightarrow> RawPositionRisk list
     \<Rightarrow> StandardizedTrade list \<times> (string \<times> StandardizedTrade) list" where
  "cm_applyBillsAndRisks closedTrades openPositions bills risks =
     (let allTrades = binance_applyBills bills (closedTrades @ map_values openPositions);
          closed' = take (length closedTrades) allTrades;
          open' = rekey openPositions (drop (length closedTrades) allTrades)
      in (closed', cm_applyRisks risks open'))"

definition cm_finalizeTrade :: "StandardizedTrade \<Rightarrow> StandardizedTrade" where
  "cm_finalizeTrade t =
     (let net = realizedPnl t - totalCommission t + totalFundingFee t;
          costCoin = totalValue t / averageEntryPrice t
      in t\<lparr> timeline := aggregateTimelineEvents (timeline t),
            netPnl := net,
            pnlPercentage := (if costCoin \<noteq> 0 then net / costCoin else 0) \<rparr>)"

definition cm_processAllData ::
  "RawFill list \<Rightarrow> Bill list \<Rightarrow> InstrumentDetail list \<Rightarrow> RawPositionRisk list
     \<Rightarrow> StandardizedTrade list" where
  "cm_processAllData rawFillsIn rawBillsIn instrumentDetails rawPositionRisks =
     (let instruments = indexInstruments instrumentDetails;
          sorted = sort_js fillCmpTs rawFillsIn;
          res = cm_processFills instruments sorted;
          res' = cm_applyBillsAndRisks (fst res) (snd res) rawBillsIn rawPositionRisks;
          allTrades = fst res' @ map_values (snd res')
      in map cm_finalizeTrade allTrades)"

section \<open>BinanceMarginTradeProcessor (in BinanceApiClient.ts)\<close>

definition margin_createNewTrade ::
  "(string \<times> InstrumentDetail) list \<Rightarrow> RawFill \<Rightarrow> StandardizedTrade" where
  "margin_createNewTrade instruments fill =
     (let quoteC = (case map_get instruments (instId fill) of
                      Some inst \<Rightarrow> quoteCcy inst | None \<Rightarrow> ''USDT'');
          isBuy = (toLowerCase (side fill) = ''buy'');
          dir = (if isBuy then LONG else SHORT)
      in newTrade (instId fill @ ''-margin-'' @ string_of_int (ts fill)) (instId fill) dir (ts fill)
           [''margin''] quoteC (feeCcy fill) quoteC)"

definition margin_updateTradeWithFill ::
  "StandardizedTrade \<Rightarrow> RawFill \<Rightarrow> bool \<Rightarrow> StandardizedTrade" where
  "margin_updateTradeWithFill t fill isOpeningNewCycle =
     (let isBuy = (toLowerCase (side fill) = ''buy'');
          fillPrice = fillPx fill;
          fillSize = fillSz fill;
          isIncrease = (if direction t = LONG then isBuy else \<not> isBuy)
      in if isIncrease then
           let act = (if \<bar>currentPositionSize t\<bar> > 0 \<and> \<not> isOpeningNewCycle then ADD else OPEN);
               currentAbsSize = \<bar>currentPositionSize t\<bar>;
               currentCost = currentAbsSize * averageEntryPrice t;
               newFillCost = fillSize * fillPrice;
               newTotalSize = currentAbsSize + fillSize
           in recordFill
                (t\<lparr> averageEntryPrice := (currentCost + newFillCost) / newTotalSize,
                    totalSize := totalSize t + fillSize,
                    totalValue := totalValue t + newFillCost,
                    currentPositionSize :=
                      (if direction t = LONG then currentPositionSize t + fillSize
                       else currentPositionSize t - fillSize) \<rparr>)
                fill (fillEvent fill act fillSize (fee fill))
         else
           let reduceSize = fillSize;
               pnl = (if direction t = LONG
                      then (fillPrice - averageEntryPrice t) * reduceSize
                      else (averageEntryPrice t - fillPrice) * reduceSize);
               cps = (if direction t = LONG
                      then currentPositionSize t - reduceSize
                      else currentPositionSize t + reduceSize);
               closes = (\<bar>cps\<bar> \<le> FLOATING_POINT_TOLERANCE)
           in recordFill
                (t\<lparr> realizedPnl := realizedPnl t + pnl,
                    currentPositionSize := (if closes then 0 else cps),
                    closingSizeAccumulator := closingSizeAccumulator t + reduceSize,
                    closingValueAccumulator := closingValueAccumulator t + reduceSize * fillPrice \<rparr>)
                fill (fillEvent fill (if closes then CLOSE else REDUCE) fillSize (fee fill)))"

text \<open>
  One iteration of the loop of \<open>_processFillsAndAggregateTrades\<close>. The synthetic fills
  of a flip carry \<open>closingSize.toString()\<close> and \<open>openingSize.toString()\<close>, read back by
  \<open>parseFloat\<close>; the round trip is the identity on the numbers of this model.
\<close>

definition margin_step ::
  "(string \<times> InstrumentDetail) list
     \<Rightarrow> StandardizedTrade list \<times> (string \<times> StandardizedTrade) list \<Rightarrow> RawFill
     \<Rightarrow> StandardizedTrade list \<times> (string \<times> StandardizedTrade) list" where
  "margin_step instruments st fill =
     (let closedTrades = fst st; openPositions = snd st;
          positionKey = instId fill @ ''-margin''
      in case map_get openPositions positionKey of
           None \<Rightarrow>
             (closedTrades,
              map_set positionKey
                (margin_updateTradeWithFill (margin_createNewTrade instruments fill) fill False)
                openPositions)
         | Some trade \<Rightarrow>
             let fillSize = fillSz fill;
                 isBuy = (toLowerCase (side fill) = ''buy'');
                 flipLong = (direction trade = LONG \<and> \<not> isBuy \<and>
                             fillSize > currentPositionSize trade + FLOATING_POINT_TOLERANCE);
                 flipShort = (\<not> (direction trade = LONG \<and> \<not> isBuy) \<and>
                              direction trade = SHORT \<and> isBuy \<and>
                              fillSize > \<bar>currentPositionSize trade\<bar> + FLOATING_POINT_TOLERANCE);
                 isFlip = (flipLong \<or> flipShort);
                 closingSize = (if flipLong then currentPositionSize trade
                                else if flipShort then \<bar>currentPositionSize trade\<bar> else 0);
                 openingSize = (if isFlip then fillSize - closingSize else 0)
             in if isFlip then
                  let closingFill = fill\<lparr>fillSz := closingSize\<rparr>;
                      closedTrade = closeTrade (margin_updateTradeWithFill trade closingFill False)
                                      (ts fill);
                      openingFill = fill\<lparr>fillSz := openingSize\<rparr>;
                      newT = margin_updateTradeWithFill
                               (margin_createNewTrade instruments openingFill) openingFill True
                  in (closedTrades @ [closedTrade], map_set positionKey newT openPositions)
                else
                  let trade' = margin_updateTradeWithFill trade fill False
                  in if \<bar>currentPositionSize trade'\<bar> \<le> FLOATING_POINT_TOLERANCE
                        \<and> lastActionReduceOrClose trade'
                     then (closedTrades @ [closeTrade trade' (ts fill)],
                           map_delete positionKey openPositions)
                     else (closedTrades, map_set positionKey trade' openPositions))"

definition margin_processFills ::
  "(string \<times> InstrumentDetail) list \<Rightarrow> RawFill list
     \<Rightarrow> StandardizedTrade list \<times> (string \<times> StandardizedTrade) list" where
  "margin_processFills instruments fills = foldl (margin_step instruments) ([], []) fills"

definition margin_finalizeTrade :: "StandardizedTrade \<Rightarrow> StandardizedTrade" where
  "margin_finalizeTrade t =
     (let net = realizedPnl t - totalCommission t
      in t\<lparr> timeline := aggregateTimelineEvents (timeline t),
            netPnl := net,
            pnlPercentage := (if totalValue t > 0 then net / totalValue t else 0) \<rparr>)"

definition margin_processAllData ::
  "RawFill list \<Rightarrow> Bill list \<Rightarrow> InstrumentDetail list \<Rightarrow> RawPositionRisk list
     \<Rightarrow> StandardizedTrade list" where
  "margin_processAllData rawFillsIn rawBillsIn instrumentDetails rawPositionRisks =
     (let instruments = indexInstruments instrumentDetails;
          sorted = sort_js fillCmpTs rawFillsIn;
          res = margin_processFills instruments sorted;
          allTrades = fst res @ map_values (snd res)
      in map margin_finalizeTrade allTrades)"

section \<open>BinanceTradeBuilder.ts\<close>

record BinanceTradeBuilder =
  b_trade :: StandardizedTrade
  b_contractValue :: real

definition binance_initializeTrade :: "RawFill \<Rightarrow> StandardizedTrade" where
  "binance_initializeTrade fill =
     (let positionSide' = toLowerCase (posSide fill);
          fillSide = toLowerCase (side fill);
          dir = (if positionSide' = ''long'' then LONG
                 else if positionSide' = ''short'' then SHORT
                 else if fillSide = ''buy'' then LONG else SHORT)
      in newTrade (instId fill @ ''-'' @ posSide fill @ ''-'' @ string_of_int (ts fill))
           (instId fill) dir (ts fill) [] ''USDT''
           (if feeCcy fill = [] then ''USDT'' else feeCcy fill) ''USDT'')"

text \<open>\<open>applyEvent\<close>; the event always carries OPEN, ADD or REDUCE here.\<close>

definition binance_applyEvent :: "StandardizedTrade \<Rightarrow> TimelineEvent \<Rightarrow> bool \<Rightarrow> StandardizedTrade" where
  "binance_applyEvent t event isLong =
     (let t' =
        (if action event = OPEN \<or> action event = ADD then
           let newSize = totalSize t + esize event;
               newVal = totalValue t + esize event * price event
           in t\<lparr> averageEntryPrice := (if newSize > 0 then newVal / newSize else averageEntryPrice t),
                 totalSize := newSize,
                 totalValue := newVal,
                 currentPositionSize := currentPositionSize t + esize event \<rparr>
         else if action event = REDUCE \<or> action event = CLOSE then
           let reduceSize = min (esize event) (currentPositionSize t);
               pnl = (price event - averageEntryPrice t) * reduceSize * (if isLong then 1 else - 1)
           in t\<lparr> realizedPnl := realizedPnl t + pnl,
                 currentPositionSize := currentPositionSize t - reduceSize,
                 closingSizeAccumulator := closingSizeAccumulator t + reduceSize,
                 closingValueAccumulator := closingValueAccumulator t + reduceSize * price event \<rparr>
         else t)
      in t'\<lparr> timeline := timeline t' @ [event] \<rparr>)"

definition binance_closeTrade :: "StandardizedTrade \<Rightarrow> int \<Rightarrow> StandardizedTrade" where
  "binance_closeTrade t exitT =
     t\<lparr> status := CLOSED_S,
        exitTime := exitT,
        durationMs := exitT - entryTime t,
        averageExitPrice :=
          (if closingSizeAccumulator t > 0
           then closingValueAccumulator t / closingSizeAccumulator t
           else averageExitPrice t) \<rparr>"

text \<open>
  \<open>addFill\<close>. The event object pushed by \<open>applyEvent\<close> is the one whose action is set
  to CLOSE afterwards, so the last timeline entry is rewritten.
\<close>

definition binance_addFill :: "BinanceTradeBuilder \<Rightarrow> RawFill \<Rightarrow> BinanceTradeBuilder" where
  "binance_addFill b fill =
     (let t = b_trade b;
          fillPrice = fillPx fill;
          fillSize = fillSz fill * b_contractValue b;
          fillFee = fee fill;
          isLong = (direction t = LONG);
          isBuy = (toLowerCase (side fill) = ''buy'');
          isAdd = (if isLong then isBuy else \<not> isBuy);
          act = (if length (timeline t) = 0 then OPEN else if isAdd then ADD else REDUCE);
          event = fillEvent fill act fillSize fillFee;
          t1 = binance_applyEvent t event isLong;
          t2 = t1\<lparr> rawFills := rawFills t1 @ [fill],
                   tradeIds := pushOrderId (tradeId fill) (tradeIds t1),
                   orderIds := pushOrderId (ordId fill) (orderIds t1),
                   totalCommission := totalCommission t1 + fillFee \<rparr>;
          t3 = (if act = REDUCE \<and> currentPositionSize t2 \<le> 1 / 1000000000
                then (binance_closeTrade t2 (ts fill))
                       \<lparr> timeline := butlast (timeline t2) @ [event\<lparr>action := CLOSE\<rparr>] \<rparr>
                else t2)
      in b\<lparr> b_trade := t3 \<rparr>)"

definition binance_newBuilder :: "RawFill \<Rightarrow> real \<Rightarrow> BinanceTradeBuilder" where
  "binance_newBuilder firstFill cv =
     binance_addFill \<lparr> b_trade = binance_initializeTrade firstFill, b_contractValue = cv \<rparr> firstFill"

definition binance_isClosed :: "BinanceTradeBuilder \<Rightarrow> bool" where
  "binance_isClosed b = (status (b_trade b) = CLOSED_S)"

section \<open>BinanceUMFuturesTradeProcessor.ts\<close>

definition um_step ::
  "(string \<times> InstrumentDetail) list
     \<Rightarrow> StandardizedTrade list \<times> (string \<times> BinanceTradeBuilder) list \<Rightarrow> RawFill
     \<Rightarrow> StandardizedTrade list \<times> (string \<times> BinanceTradeBuilder) list" where
  "um_step instruments st fill =
     (let closedTrades = fst st; openPositions = snd st;
          positionKey = instId fill @ ''-'' @ posSide fill
      in case map_get openPositions positionKey of
           None \<Rightarrow>
             let fillSide = toLowerCase (side fill);
                 positionSide' = toLowerCase (posSide fill);
                 isOpeningFill = ((positionSide' = ''long'' \<and> fillSide = ''buy'') \<or>
                                  (positionSide' = ''short'' \<and> fillSide = ''sell''))
             in if \<not> isOpeningFill then st
                else
                  let contractValue = (case map_get instruments (instId fill) of
                                         Some inst \<Rightarrow> ctVal inst | None \<Rightarrow> 1);
                      builder = binance_newBuilder fill contractValue
                  in if binance_isClosed builder
                     then (closedTrades @ [b_trade builder], openPositions)
                     else (closedTrades, map_set positionKey builder openPositions)
         | Some builder0 \<Rightarrow>
             let builder = binance_addFill builder0 fill
             in if binance_isClosed builder
                then (closedTrades @ [b_trade builder], map_delete positionKey openPositions)
                else (closedTrades, map_set positionKey builder openPositions))"

definition um_processFills ::
  "(string \<times> InstrumentDetail) list \<Rightarrow> RawFill list
     \<Rightarrow> StandardizedTrade list \<times> (string \<times> BinanceTradeBuilder) list" where
  "um_processFills instruments fills = foldl (um_step instruments) ([], []) fills"

text \<open>
  \<open>applyBillsAndRisks\<close>: the funding loop is the Coin-M one; the loop over
  \<open>rawPositionRisks\<close> computes \<open>positionKey\<close> and has no other statement, so the
  risks leave every trade as it is.
\<close>

definition um_applyBillsAndRisks ::
  "StandardizedTrade list \<Rightarrow> (string \<times> BinanceTradeBuilder) list \<Rightarrow> Bill list
     \<Rightarrow> RawPositionRisk list
     \<Rightarrow> StandardizedTrade list \<times> (string \<times> BinanceTradeBuilder) list" where
  "um_applyBillsAndRisks closedTrades openPositions bills risks =
     (let allTrades = binance_applyBills bills
                        (closedTrades @ map b_trade (map_values openPositions));
          closed' = take (length closedTrades) allTrades;
          open' = map (\<lambda>(kb, t). (fst kb, (snd kb)\<lparr>b_trade := t\<rparr>))
                    (zip openPositions (drop (length closedTrades) allTrades));
          open'' = foldl (\<lambda>m rawRisk. m) open' risks
      in (closed', open''))"

text \<open>\<open>finalizeMetrics\<close> of the UM and of the OKX processor (the same statements).\<close>

definition finalizeTrade :: "StandardizedTrade \<Rightarrow> StandardizedTrade" where
  "finalizeTrade t =
     (let net = realizedPnl t - totalCommission t + totalFundingFee t
      in t\<lparr> timeline := aggregateEvents (timeline t),
            netPnl := net,
            pnlPercentage := (if totalValue t > 0 then net / totalValue t else 0) \<rparr>)"

definition um_processAllData ::
  "RawFill list \<Rightarrow> Bill list \<Rightarrow> InstrumentDetail list \<Rightarrow> RawPositionRisk list
     \<Rightarrow> StandardizedTrade list" where
  "um_processAllData rawFillsIn rawBillsIn instrumentDetails rawPositionRisks =
     (let instruments = indexInstruments instrumentDetails;
          sorted = sort_js fillCmpTs rawFillsIn;
          res = um_processFills instruments sorted;
          res' = um_applyBillsAndRisks (fst res) (snd res) rawBillsIn rawPositionRisks;
          allTrades = fst res' @ map b_trade (map_values (snd res'))
      in map finalizeTrade allTrades)"

section \<open>OkxTradeBuilder.ts\<close>

record OkxTradeBuilder =
  o_trade :: StandardizedTrade
  o_contractValue :: real
  o_isInverse :: bool

definition okx_determineDirection :: "RawFill \<Rightarrow> TradeDirection" where
  "okx_determineDirection fill =
     (let posSide' = toLowerCase (posSide fill)
      in if posSide' = ''long'' then LONG
         else if posSide' = ''short'' then SHORT
         else if toLowerCase (side fill) = ''buy'' then LONG else SHORT)"

definition okx_initializeTrade :: "RawFill \<Rightarrow> bool \<Rightarrow> StandardizedTrade" where
  "okx_initializeTrade fill isInv =
     (let defaultFeeCcy = (if feeCcy fill = [] then ''USDT'' else feeCcy fill);
          pnlCcy = (if isInv then (if feeCcy fill = [] then ''BTC'' else feeCcy fill) else ''USDT'');
          valCcy = (if isInv then ''USD'' else ''USDT'')
      in newTrade (instId fill @ ''-'' @ posSide fill @ ''-'' @ string_of_int (ts fill))
           (instId fill) (okx_determineDirection fill) (ts fill) [] pnlCcy defaultFeeCcy valCcy)"

definition okx_determineAction :: "StandardizedTrade \<Rightarrow> RawFill \<Rightarrow> Action" where
  "okx_determineAction t fill =
     (let isLong = (direction t = LONG);
          isBuy = (toLowerCase (side fill) = ''buy'');
          isHooksIncrease = ((isLong \<and> isBuy) \<or> (\<not> isLong \<and> \<not> isBuy))
      in if isHooksIncrease then (if length (timeline t) = 0 then OPEN else ADD) else REDUCE)"

text \<open>
  \<open>updateState(event)\<close> returns the trade and the event, whose action it may set to
  CLOSE before \<open>addFill\<close> pushes it on the timeline.
\<close>

definition okx_updateState ::
  "bool \<Rightarrow> StandardizedTrade \<Rightarrow> TimelineEvent \<Rightarrow> StandardizedTrade \<times> TimelineEvent" where
  "okx_updateState isInv t event =
     (let res =
        (if action event = OPEN \<or> action event = ADD then
           let addedCost =
                 (if isInv then (if price event > 0 then esize event / price event else 0)
                  else esize event * price event);
               newTotalCost = totalValue t + addedCost;
               newTotalSize = totalSize t + esize event
           in (t\<lparr> averageEntryPrice :=
                     (if newTotalSize > 0 \<and> newTotalCost > 0
                      then (if isInv then newTotalSize / newTotalCost
                            else newTotalCost / newTotalSize)
                      else averageEntryPrice t),
                   totalSize := newTotalSize,
                   totalValue := newTotalCost,
                   currentPositionSize := currentPositionSize t + esize event \<rparr>, event)
         else
           let sizeReduced = min (esize event) (currentPositionSize t);
               isLong = (direction t = LONG);
               pnl =
                 (if isInv then
                    (if averageEntryPrice t > 0 \<and> price event > 0 then
                       (if isLong then sizeReduced * (1 / averageEntryPrice t - 1 / price event)
                        else sizeReduced * (1 / price event - 1 / averageEntryPrice t))
                     else 0)
                  else (price event - averageEntryPrice t) * sizeReduced * (if isLong then 1 else - 1));
               t1 = t\<lparr> realizedPnl := realizedPnl t + pnl,
                       currentPositionSize := currentPositionSize t - sizeReduced,
                       closingSizeAccumulator := closingSizeAccumulator t + sizeReduced,
                       closingValueAccumulator :=
                         (if isInv
                          then (if price event > 0
                                then closingValueAccumulator t + sizeReduced / price event
                                else closingValueAccumulator t)
                          else closingValueAccumulator t + sizeReduced * price event) \<rparr>
           in if currentPositionSize t1 \<le> FLOATING_POINT_TOLERANCE then
                (t1\<lparr> status := CLOSED_S,
                     exitTime := timestamp event,
                     durationMs := timestamp event - entryTime t1,
                     averageExitPrice :=
                       (if closingSizeAccumulator t1 > 0 then
                          (if isInv
                           then (if closingValueAccumulator t1 > 0
                                 then closingSizeAccumulator t1 / closingValueAccumulator t1 else 0)
                           else closingValueAccumulator t1 / closingSizeAccumulator t1)
                        else averageExitPrice t1),
                     currentPositionSize := 0 \<rparr>,
                 event\<lparr>action := CLOSE\<rparr>)
              else (t1, event))
      in ((fst res)\<lparr> totalCommission := totalCommission (fst res) + feeOrZero (snd res) \<rparr>,
          snd res))"

definition okx_addFill :: "OkxTradeBuilder \<Rightarrow> RawFill \<Rightarrow> OkxTradeBuilder" where
  "okx_addFill b fill =
     (let t = o_trade b;
          eventSize = fillSz fill * o_contractValue b;
          normalizedFee = - fee fill;
          act = okx_determineAction t fill;
          event = fillEvent fill act eventSize normalizedFee;
          res = okx_updateState (o_isInverse b) t event;
          t1 = fst res
      in b\<lparr> o_trade :=
              t1\<lparr> timeline := timeline t1 @ [snd res],
                   tradeIds := tradeIds t1 @ [tradeId fill],
                   orderIds := pushOrderId (ordId fill) (orderIds t1),
                   rawFills := rawFills t1 @ [fill] \<rparr> \<rparr>)"

definition okx_newBuilder :: "RawFill \<Rightarrow> real \<Rightarrow> bool \<Rightarrow> OkxTradeBuilder" where
  "okx_newBuilder firstFill cv isInv =
     okx_addFill \<lparr> o_trade = okx_initializeTrade firstFill isInv,
                   o_contractValue = cv, o_isInverse = isInv \<rparr> firstFill"

definition okx_isClosed :: "OkxTradeBuilder \<Rightarrow> bool" where
  "okx_isClosed b = (status (o_trade b) = CLOSED_S)"

section \<open>OkxUMFuturesTradeProcessor.ts\<close>

definition fillCmpTsId :: "RawFill \<Rightarrow> RawFill \<Rightarrow> int" where
  "fillCmpTsId a b =
     (let tsDiff = ts a - ts b
      in if tsDiff \<noteq> 0 then tsDiff else localeCompare (tradeId a) (tradeId b))"

definition isReduceOnly :: "RawFill \<Rightarrow> bool" where
  "isReduceOnly fill =
     (let side' = toLowerCase (side fill); posSide' = toLowerCase (posSide fill)
      in if posSide' = ''long'' \<and> side' = ''sell'' then True
         else if posSide' = ''short'' \<and> side' = ''buy'' then True
         else False)"

definition okx_step ::
  "(string \<times> InstrumentDetail) list
     \<Rightarrow> StandardizedTrade list \<times> (string \<times> OkxTradeBuilder) list \<Rightarrow> RawFill
     \<Rightarrow> StandardizedTrade list \<times> (string \<times> OkxTradeBuilder) list" where
  "okx_step instruments st fill =
     (let closedTrades = fst st; openPositions = snd st;
          positionKey = instId fill @ ''-'' @ toLowerCase (posSide fill)
      in case map_get openPositions positionKey of
           None \<Rightarrow>
             let contractValue = (case map_get instruments (instId fill) of
                                    Some inst \<Rightarrow> ctVal inst | None \<Rightarrow> 1)
             in if isReduceOnly fill then st
                else
                  let isInv = (str_includes (instId fill) ''-USD-'' \<and>
                                 \<not> str_includes (instId fill) ''-USDT-'');
                      builder = okx_newBuilder fill contractValue isInv
                  in if okx_isClosed builder
                     then (closedTrades @ [o_trade builder], openPositions)
                     else (closedTrades, map_set positionKey builder openPositions)
         | Some builder0 \<Rightarrow>
             let builder = okx_addFill builder0 fill
             in if okx_isClosed builder
                then (closedTrades @ [o_trade builder], map_delete positionKey openPositions)
                else (closedTrades, map_set positionKey builder openPositions))"

definition okx_processFills ::
  "(string \<times> InstrumentDetail) list \<Rightarrow> RawFill list
     \<Rightarrow> StandardizedTrade list \<times> (string \<times> OkxTradeBuilder) list" where
  "okx_processFills instruments fills = foldl (okx_step instruments) ([], []) fills"

text \<open>
  The funding loop of the OKX processor: the bills of type \<open>'8'\<close> of the trade's symbol,
  in the order of \<open>rawBills\<close>, each credited when relevant, without \<open>break\<close>.
\<close>

definition okx_creditTrade :: "Bill list \<Rightarrow> StandardizedTrade \<Rightarrow> StandardizedTrade" where
  "okx_creditTrade bills t =
     foldl (\<lambda>t' bill. if isRelevant bill t' then creditBill bill t' else t') t
       (filter (\<lambda>bill. b_type bill = ''8'' \<and> b_instId bill = symbol t) bills)"

definition okx_applyRisks ::
  "RawPositionRisk list \<Rightarrow> (string \<times> OkxTradeBuilder) list \<Rightarrow> (string \<times> OkxTradeBuilder) list" where
  "okx_applyRisks risks openPositions =
     foldl (\<lambda>m risk.
              let positionKey = r_symbol risk @ ''-'' @ toLowerCase (positionSide risk)
              in case map_get m positionKey of
                   None \<Rightarrow> m
                 | Some b \<Rightarrow>
                     map_set positionKey
                       (b\<lparr>o_trade := (o_trade b)\<lparr>currentNotionalValue := Some (notional risk)\<rparr>\<rparr>) m)
       openPositions risks"

definition okx_applyBillsAndRisks ::
  "StandardizedTrade list \<Rightarrow> (string \<times> OkxTradeBuilder) list \<Rightarrow> Bill list
     \<Rightarrow> RawPositionRisk list
     \<Rightarrow> StandardizedTrade list \<times> (string \<times> OkxTradeBuilder) list" where
  "okx_applyBillsAndRisks closedTrades openPositions bills risks =
     (let closed' = map (okx_creditTrade bills) closedTrades;
          open' = map (\<lambda>kb. (fst kb, (snd kb)\<lparr>o_trade := okx_creditTrade bills (o_trade (snd kb))\<rparr>))
                    openPositions
      in (closed', okx_applyRisks risks open'))"

definition okx_processAllData ::
  "RawFill list \<Rightarrow> Bill list \<Rightarrow> InstrumentDetail list \<Rightarrow> RawPositionRisk list
     \<Rightarrow> StandardizedTrade list" where
  "okx_processAllData rawFillsIn rawBillsIn instruments' positions =
     (let instruments = indexInstruments instruments';
          sorted = sort_js fillCmpTsId rawFillsIn;
          res = okx_processFills instruments sorted;
          res' = okx_applyBillsAndRisks (fst res) (snd res) rawBillsIn positions;
          allTrades = fst res' @ map o_trade (map_values (snd res'))
      in map finalizeTrade allTrades)"

section \<open>SafeParsers.ts\<close>





















section \<open>Notions used to state and prove the properties\<close>

text \<open>
  Two actions can be merged by \<open>TimelineUtils\<close> exactly when they lie in the same
  class: opening (OPEN, ADD), closing (REDUCE, CLOSE), or analysis.
\<close>

fun actionClass :: "Action \<Rightarrow> nat" where
  "actionClass OPEN = 0"
| "actionClass ADD = 0"
| "actionClass REDUCE = 1"
| "actionClass CLOSE = 1"
| "actionClass MARKET_ANALYSIS = 2"

definition noMerge :: "int \<Rightarrow> TimelineEvent \<Rightarrow> TimelineEvent \<Rightarrow> bool" where
  "noMerge w a b = (\<not> canMerge w a b)"

definition tsLe :: "TimelineEvent \<Rightarrow> TimelineEvent \<Rightarrow> bool" where
  "tsLe = (\<lambda>a b. timestamp a \<le> timestamp b)"

definition tsLt :: "TimelineEvent \<Rightarrow> TimelineEvent \<Rightarrow> bool" where
  "tsLt = (\<lambda>a b. timestamp a < timestamp b)"

text \<open>
  The state of a fold over the fills is the list of closed trades and the map of open
  positions (trades, or builders holding a trade). \<open>stateInv C P\<close> says that every
  closed trade satisfies \<open>C\<close> and every open position satisfies \<open>P\<close>.
\<close>

definition closedInv :: "(StandardizedTrade \<Rightarrow> bool) \<Rightarrow> StandardizedTrade list \<Rightarrow> bool" where
  "closedInv C cl = (\<forall>t\<in>set cl. C t)"

definition openInv :: "('b \<Rightarrow> bool) \<Rightarrow> (string \<times> 'b) list \<Rightarrow> bool" where
  "openInv P m = (\<forall>kv\<in>set m. P (snd kv))"

definition stateInv ::
  "(StandardizedTrade \<Rightarrow> bool) \<Rightarrow> ('b \<Rightarrow> bool) \<Rightarrow> StandardizedTrade list \<times> (string \<times> 'b) list \<Rightarrow> bool" where
  "stateInv C P st = (closedInv C (fst st) \<and> openInv P (snd st))"

text \<open>What the close test of the Spot and Coin-M loops makes of an updated trade.\<close>

definition afterUpdate ::
  "(StandardizedTrade \<Rightarrow> bool) \<Rightarrow> (StandardizedTrade \<Rightarrow> bool) \<Rightarrow> StandardizedTrade \<Rightarrow> int \<Rightarrow> bool" where
  "afterUpdate C P t exitT =
     (if currentPositionSize t \<le> FLOATING_POINT_TOLERANCE \<and> lastActionReduceOrClose t
      then C (closeTrade t exitT) else P t)"

text \<open>The same for the builders, which are moved to the closed trades once \<open>isClosed\<close>.\<close>

definition um_after ::
  "(StandardizedTrade \<Rightarrow> bool) \<Rightarrow> (BinanceTradeBuilder \<Rightarrow> bool) \<Rightarrow> BinanceTradeBuilder \<Rightarrow> bool" where
  "um_after C P b = (if binance_isClosed b then C (b_trade b) else P b)"

definition okx_after ::
  "(StandardizedTrade \<Rightarrow> bool) \<Rightarrow> (OkxTradeBuilder \<Rightarrow> bool) \<Rightarrow> OkxTradeBuilder \<Rightarrow> bool" where
  "okx_after C P b = (if okx_isClosed b then C (o_trade b) else P b)"

text \<open>The contract value a new builder is given: \<open>ctVal\<close> of the instrument, or 1.\<close>

definition contractValueOf :: "(string \<times> InstrumentDetail) list \<Rightarrow> RawFill \<Rightarrow> real" where
  "contractValueOf insts f = (case map_get insts (instId f) of Some inst \<Rightarrow> ctVal inst | None \<Rightarrow> 1)"

definition noFunding :: "StandardizedTrade \<Rightarrow> bool" where
  "noFunding t = (totalFundingFee t = 0)"





text \<open>
  The fields the window test reads. \<open>firstMatch\<close> is the index of the first trade of
  the bill's symbol that passes the window test; \<open>firstMatchSum\<close> adds the funding bills
  whose first match is the trade at index \<open>i\<close>; \<open>fundingSum\<close> adds the bills of a type
  that match the trade itself.
\<close>

definition windowKey :: "StandardizedTrade \<Rightarrow> string \<times> int \<times> PositionStatus \<times> int" where
  "windowKey t = (symbol t, entryTime t, status t, exitTime t)"

fun firstMatch :: "Bill \<Rightarrow> StandardizedTrade list \<Rightarrow> nat option" where
  "firstMatch bill [] = None"
| "firstMatch bill (t # rest) =
     (if symbol t = b_instId bill \<and> isRelevant bill t then Some 0
      else map_option Suc (firstMatch bill rest))"

definition firstMatchSum :: "Bill list \<Rightarrow> StandardizedTrade list \<Rightarrow> nat \<Rightarrow> real" where
  "firstMatchSum bills trades i =
     sum_list (map b_balChg
       (filter (\<lambda>bill. b_type bill = BILL_TYPE_FUNDING_FEE \<and> firstMatch bill trades = Some i) bills))"

definition fundingSum :: "Bill list \<Rightarrow> string \<Rightarrow> StandardizedTrade \<Rightarrow> real" where
  "fundingSum bills ty t =
     sum_list (map b_balChg
       (filter (\<lambda>bill. b_type bill = ty \<and> b_instId bill = symbol t \<and> isRelevant bill t) bills))"

definition fundingIs :: "Bill list \<Rightarrow> StandardizedTrade \<Rightarrow> bool" where
  "fundingIs bills t = (totalFundingFee t = fundingSum bills ''8'' t)"

text \<open>The trades after the fold of the fills, before bills and risks: closed, then open.\<close>

definition cm_foldedTrades :: "InstrumentDetail list \<Rightarrow> RawFill list \<Rightarrow> StandardizedTrade list" where
  "cm_foldedTrades insts fills =
     fst (cm_processFills (indexInstruments insts) (sort_js fillCmpTs fills))
     @ map_values (snd (cm_processFills (indexInstruments insts) (sort_js fillCmpTs fills)))"

definition um_foldedTrades :: "InstrumentDetail list \<Rightarrow> RawFill list \<Rightarrow> StandardizedTrade list" where
  "um_foldedTrades insts fills =
     fst (um_processFills (indexInstruments insts) (sort_js fillCmpTs fills))
     @ map b_trade (map_values (snd (um_processFills (indexInstruments insts) (sort_js fillCmpTs fills))))"

section \<open>Concrete inputs\<close>

definition ev :: "int \<Rightarrow> Action \<Rightarrow> string \<Rightarrow> TimelineEvent" where
  "ev t a i = \<lparr> timestamp = t, action = a, esize = 1, price = 100, enotes = None,
       etradeId = Some i, eorderId = None, efee = Some 0, efeeCcy = None \<rparr>"

definition mkFill ::
  "string \<Rightarrow> string \<Rightarrow> string \<Rightarrow> string \<Rightarrow> real \<Rightarrow> real \<Rightarrow> int \<Rightarrow> RawFill" where
  "mkFill inst tid sd ps px sz t =
     \<lparr> instId = inst, tradeId = tid, ordId = tid, side = sd, posSide = ps,
       fillPx = px, fillSz = sz, fee = 0, feeCcy = ''USDT'', ts = t \<rparr>"

definition btcPerp :: InstrumentDetail where
  "btcPerp = \<lparr> i_instId = ''BTCUSD_PERP'', ctVal = 100, baseCcy = ''BTC'', quoteCcy = ''USD'' \<rparr>"

text \<open>The inverse-contract pair of the Coin-M test: buy 10 @ 50000, sell 10 @ 55000.\<close>

definition inversePair :: "RawFill list" where
  "inversePair =
     [mkFill ''BTCUSD_PERP'' ''1'' ''buy'' ''long'' 50000 10 1000,
      mkFill ''BTCUSD_PERP'' ''2'' ''sell'' ''long'' 55000 10 2000]"


text \<open>Two fills of one order in the same millisecond, at two prices.\<close>

definition sameMs :: "RawFill list" where
  "sameMs = [mkFill ''BTCUSD_PERP'' ''1'' ''buy'' ''long'' 50000 1 1000,
             mkFill ''BTCUSD_PERP'' ''2'' ''buy'' ''long'' 50100 1 1000]"



definition orphanSell :: RawFill where
  "orphanSell = mkFill ''BTCUSDT'' ''0'' ''sell'' '''' 90 1 500"

definition okxOrphan :: RawFill where
  "okxOrphan = mkFill ''BTC-USDT-SWAP'' ''0'' ''sell'' ''long'' 90 1 500"

definition spotCycle :: "RawFill list" where
  "spotCycle = [mkFill ''BTCUSDT'' ''1'' ''buy'' '''' 100 1 1000,
                mkFill ''BTCUSDT'' ''2'' ''sell'' '''' 150 1 2000]"

definition openLong :: "string \<Rightarrow> string \<Rightarrow> RawFill list" where
  "openLong inst ps = [mkFill inst ''1'' ''buy'' ps 100 1 1000]"

definition riskOf :: "string \<Rightarrow> string \<Rightarrow> RawPositionRisk list" where
  "riskOf inst ps = [\<lparr> r_symbol = inst, positionSide = ps, notional = 120 \<rparr>]"

definition fundingBill :: "string \<Rightarrow> string \<Rightarrow> Bill list" where
  "fundingBill inst ty = [\<lparr> b_instId = inst, b_balChg = 5, b_ts = 2000, b_type = ty \<rparr>]"


text \<open>
  The Binance UM test with funding: buy 1 @ 50000 and sell 1 @ 51000, fee 10 each, and
  funding bills of -5.5 and -4.5 inside the trade's window, one bill for another symbol.
\<close>

definition feeFill ::
  "string \<Rightarrow> string \<Rightarrow> string \<Rightarrow> string \<Rightarrow> real \<Rightarrow> real \<Rightarrow> real \<Rightarrow> int \<Rightarrow> RawFill" where
  "feeFill inst tid sd ps px sz fe t =
     \<lparr> instId = inst, tradeId = tid, ordId = tid, side = sd, posSide = ps,
       fillPx = px, fillSz = sz, fee = fe, feeCcy = ''USDT'', ts = t \<rparr>"

definition fundedPair :: "string \<Rightarrow> real \<Rightarrow> RawFill list" where
  "fundedPair inst fe =
     [feeFill inst ''1'' ''buy'' ''long'' 50000 1 fe 1000,
      feeFill inst ''2'' ''sell'' ''long'' 51000 1 fe 5000]"

definition fundingBills :: "string \<Rightarrow> string \<Rightarrow> Bill list" where
  "fundingBills inst ty =
     [\<lparr> b_instId = inst, b_balChg = - 11 / 2, b_ts = 2000, b_type = ty \<rparr>,
      \<lparr> b_instId = inst, b_balChg = - 9 / 2, b_ts = 3000, b_type = ty \<rparr>,
      \<lparr> b_instId = ''UNRELATED'', b_balChg = - 100, b_ts = 3000, b_type = ty \<rparr>]"





section \<open>Evaluation of the model on concrete inputs\<close>

lemmas builtin_defs =
  toLowerCase_def lowerChar_def sort_js_def fillCmpTs_def fillCmpTsId_def indexInstruments_def
  map_values_def FLOATING_POINT_TOLERANCE_def string_of_int_def string_of_nat.simps Let_def

lemmas trade_defs =
  newTrade_def recordFill_def fillEvent_def pushOrderId_def feeOrZero_def closeTrade_def
  lastActionReduceOrClose_def

lemmas timeline_defs =
  aggregateEvents_def aggregateEventsW_def eventCmp_def orEmpty_def canMerge_def mergeGroup_def
  truthy_def aggregateTimelineEvents_def canMergeLocal_def mergeEvents_def

lemmas bills_defs =
  binance_applyBills_def BILL_TYPE_FUNDING_FEE_def isRelevant_def creditBill_def rekey_def
  cm_applyRisks_def

lemmas cm_defs =
  cm_processAllData_def cm_processFills_def cm_step_def cm_updateTradeWithFill_def
  cm_createNewTrade_def cm_applyBillsAndRisks_def cm_finalizeTrade_def

lemmas spot_defs =
  spot_processAllData_def spot_processFills_def spot_step_def spot_updateTradeWithFill_def
  spot_createNewTrade_def spot_finalizeTrade_def

lemmas margin_defs =
  margin_processAllData_def margin_processFills_def margin_step_def
  margin_updateTradeWithFill_def margin_createNewTrade_def margin_finalizeTrade_def

lemmas um_defs =
  um_processAllData_def um_processFills_def um_step_def binance_newBuilder_def
  binance_addFill_def binance_applyEvent_def binance_closeTrade_def binance_initializeTrade_def
  binance_isClosed_def um_applyBillsAndRisks_def finalizeTrade_def

lemmas okx_defs =
  okx_processAllData_def okx_processFills_def okx_step_def okx_newBuilder_def okx_addFill_def
  okx_updateState_def okx_determineAction_def okx_determineDirection_def okx_initializeTrade_def
  okx_isClosed_def isReduceOnly_def okx_creditTrade_def okx_applyRisks_def
  okx_applyBillsAndRisks_def finalizeTrade_def

section \<open>TimelineUtils: aggregation twice\<close>

lemma canMerge_iff:
  "canMerge w p c \<longleftrightarrow> timestamp c - timestamp p < w \<and> actionClass (action p) = actionClass (action c)"
  by (cases "action p"; cases "action c"; simp add: canMerge_def)

lemma mergeGroup_timestamp: "timestamp (mergeGroup g gs) = timestamp g"
  by (simp add: mergeGroup_def Let_def)

lemma actionClass_OPEN: "actionClass a = actionClass OPEN \<longleftrightarrow> a = OPEN \<or> a = ADD"
  by (cases a) simp_all

lemma actionClass_CLOSE: "actionClass a = actionClass CLOSE \<longleftrightarrow> a = REDUCE \<or> a = CLOSE"
  by (cases a) simp_all

lemma mergeGroup_class:
  assumes "\<forall>e\<in>set gs. actionClass (action e) = actionClass (action g)"
  shows "actionClass (action (mergeGroup g gs)) = actionClass (action g)"
proof -
  have o: "action e = OPEN \<Longrightarrow> e \<in> set gs \<Longrightarrow> actionClass (action g) = actionClass OPEN" for e
    using assms by metis
  have c: "action e = CLOSE \<Longrightarrow> e \<in> set gs \<Longrightarrow> actionClass (action g) = actionClass CLOSE" for e
    using assms by metis
  show ?thesis
    by (auto simp: mergeGroup_def Let_def list_ex_iff dest: o c)
qed

lemma groupLoop_noMerge:
  assumes "successively (noMerge w) agg"
    and "agg \<noteq> [] \<Longrightarrow> \<not> (timestamp g - timestamp (last agg) < w \<and>
            actionClass (action (last agg)) = actionClass (action g))"
    and "\<forall>e\<in>set gs. actionClass (action e) = actionClass (action g)"
    and "sorted_wrt tsLe (g # gs @ rest)"
  shows "successively (noMerge w) (groupLoop w agg g gs rest)"
  using assms
proof (induction rest arbitrary: agg g gs)
  case Nil
  then show ?case
    by (auto simp: successively_append_iff noMerge_def canMerge_iff mergeGroup_timestamp
        mergeGroup_class)
next
  case (Cons c rest)
  let ?l = "last (g # gs)"
  have lcl: "actionClass (action ?l) = actionClass (action g)"
    using Cons.prems(3) by (cases gs rule: rev_cases) auto
  have gl: "timestamp g \<le> timestamp ?l"
    using Cons.prems(4) by (cases gs rule: rev_cases) (auto simp: tsLe_def sorted_wrt_append)
  show ?case
  proof (cases "canMerge w ?l c")
    case True
    have "successively (noMerge w) (groupLoop w agg g (gs @ [c]) rest)"
    proof (rule Cons.IH)
      show "successively (noMerge w) agg" by (rule Cons.prems(1))
      show "\<forall>e\<in>set (gs @ [c]). actionClass (action e) = actionClass (action g)"
        using Cons.prems(3) True lcl by (auto simp: canMerge_iff)
      show "sorted_wrt tsLe (g # (gs @ [c]) @ rest)" using Cons.prems(4) by simp
    qed (use Cons.prems(2) in auto)
    with True show ?thesis by simp
  next
    case False
    have "successively (noMerge w) (groupLoop w (agg @ [mergeGroup g gs]) c [] rest)"
    proof (rule Cons.IH)
      show "successively (noMerge w) (agg @ [mergeGroup g gs])"
        using Cons.prems(1,2,3)
        by (auto simp: successively_append_iff noMerge_def canMerge_iff mergeGroup_timestamp
            mergeGroup_class)
      show "\<not> (timestamp c - timestamp (last (agg @ [mergeGroup g gs])) < w \<and>
            actionClass (action (last (agg @ [mergeGroup g gs]))) = actionClass (action c))"
        using False lcl gl Cons.prems(3)
        by (auto simp: canMerge_iff mergeGroup_timestamp mergeGroup_class)
      show "\<forall>e\<in>set []. actionClass (action e) = actionClass (action c)" by simp
      show "sorted_wrt tsLe (c # [] @ rest)" using Cons.prems(4) by (simp add: sorted_wrt_append)
    qed
    with False show ?thesis by simp
  qed
qed

lemma mergeGroup_single: "mergeGroup g [] = g"
  by (simp add: mergeGroup_def)

lemma groupLoop_fixed:
  "successively (noMerge w) (g # rest) \<Longrightarrow> groupLoop w agg g [] rest = agg @ g # rest"
  by (induction rest arbitrary: agg g) (auto simp: noMerge_def mergeGroup_single)

lemma set_insort_js: "set (insort_js cmp x ys) = insert x (set ys)"
  by (induction ys) auto

lemma eventCmp_le: "eventCmp a b \<le> 0 \<Longrightarrow> timestamp a \<le> timestamp b"
  by (auto simp: eventCmp_def split: if_splits)

lemma eventCmp_gt: "\<not> eventCmp a b \<le> 0 \<Longrightarrow> timestamp b \<le> timestamp a"
  by (auto simp: eventCmp_def split: if_splits)

lemma insort_js_tsLe:
  "sorted_wrt tsLe ys \<Longrightarrow> sorted_wrt tsLe (insort_js eventCmp x ys)"
proof (induction ys)
  case Nil
  then show ?case by simp
next
  case (Cons y ys)
  show ?case
  proof (cases "eventCmp x y \<le> 0")
    case True
    then have "timestamp x \<le> timestamp y" by (rule eventCmp_le)
    with Cons.prems True show ?thesis by (auto simp: tsLe_def)
  next
    case False
    then have "timestamp y \<le> timestamp x" by (rule eventCmp_gt)
    with Cons False show ?thesis by (auto simp: tsLe_def set_insort_js)
  qed
qed

lemma sort_js_tsLe: "sorted_wrt tsLe (sort_js eventCmp xs)"
  by (induction xs) (simp_all add: sort_js_def insort_js_tsLe)

lemma aggregate_noMerge: "2 \<le> length xs \<Longrightarrow> successively (noMerge w) (aggregateEventsW xs w)"
proof -
  assume "2 \<le> length xs"
  have s: "sorted_wrt tsLe (sort_js eventCmp xs)" by (rule sort_js_tsLe)
  show ?thesis
  proof (cases "sort_js eventCmp xs")
    case Nil
    with \<open>2 \<le> length xs\<close> show ?thesis by (simp add: aggregateEventsW_def)
  next
    case (Cons s0 rest)
    have "successively (noMerge w) (groupLoop w [] s0 [] rest)"
      by (rule groupLoop_noMerge) (use s Cons in auto)
    with Cons \<open>2 \<le> length xs\<close> show ?thesis by (simp add: aggregateEventsW_def)
  qed
qed

lemma aggregateEventsW_unfold:
  "\<not> length zs < 2 \<Longrightarrow> sort_js eventCmp zs = z0 # zr \<Longrightarrow>
   aggregateEventsW zs w = groupLoop w [] z0 [] zr"
  by (simp add: aggregateEventsW_def)

lemma aggregate_idem_sorted:
  assumes "sort_js eventCmp (aggregateEventsW xs w) = aggregateEventsW xs w"
  shows "aggregateEventsW (aggregateEventsW xs w) w = aggregateEventsW xs w"
proof (cases "2 \<le> length xs")
  case False
  then show ?thesis by (simp add: aggregateEventsW_def)
next
  case True
  define ys where "ys = aggregateEventsW xs w"
  have nm: "successively (noMerge w) ys" unfolding ys_def using True by (rule aggregate_noMerge)
  have srt: "sort_js eventCmp ys = ys" unfolding ys_def by (rule assms)
  have "aggregateEventsW ys w = ys"
  proof (cases "length ys < 2")
    case True
    then show ?thesis by (simp add: aggregateEventsW_def)
  next
    case False
    then obtain y0 yrest where ys: "ys = y0 # yrest" by (cases ys) auto
    have "aggregateEventsW ys w = groupLoop w [] y0 [] yrest"
      using False srt ys by (intro aggregateEventsW_unfold) auto
    also have "\<dots> = y0 # yrest" using nm ys by (simp add: groupLoop_fixed)
    finally show ?thesis using ys by simp
  qed
  then show ?thesis by (simp add: ys_def)
qed

lemma distinct_insort_js:
  "distinct (map f (insort_js cmp x ys)) \<longleftrightarrow> f x \<notin> f ` set ys \<and> distinct (map f ys)"
  by (induction ys) (auto simp: set_insort_js)

lemma set_sort_js: "set (sort_js cmp xs) = set xs"
  by (induction xs) (simp_all add: sort_js_def set_insort_js)

lemma distinct_sort_js: "distinct (map f (sort_js cmp xs)) \<longleftrightarrow> distinct (map f xs)"
proof (induction xs)
  case Nil
  then show ?case by (simp add: sort_js_def)
next
  case (Cons x xs)
  have "sort_js cmp (x # xs) = insort_js cmp x (sort_js cmp xs)" by (simp add: sort_js_def)
  with Cons show ?case by (simp add: distinct_insort_js set_sort_js)
qed

lemma tsLe_distinct_tsLt:
  "sorted_wrt tsLe ys \<Longrightarrow> distinct (map timestamp ys) \<Longrightarrow> sorted_wrt tsLt ys"
  by (induction ys) (auto simp: tsLe_def tsLt_def order_less_le)

lemma sort_js_fixed: "sorted_wrt tsLt ys \<Longrightarrow> sort_js eventCmp ys = ys"
proof (induction ys)
  case Nil
  then show ?case by (simp add: sort_js_def)
next
  case (Cons y ys)
  then have ih: "sort_js eventCmp ys = ys" by simp
  have "sort_js eventCmp (y # ys) = insort_js eventCmp y ys"
    using ih by (simp add: sort_js_def)
  also have "\<dots> = y # ys"
    using Cons.prems by (cases ys) (auto simp: tsLt_def eventCmp_def)
  finally show ?case .
qed

lemma groupLoop_tsLt:
  assumes "sorted_wrt tsLt agg" and "\<forall>a\<in>set agg. timestamp a < timestamp g"
    and "sorted_wrt tsLt (g # gs @ rest)"
  shows "sorted_wrt tsLt (groupLoop w agg g gs rest)"
  using assms
proof (induction rest arbitrary: agg g gs)
  case Nil
  then show ?case by (auto simp: sorted_wrt_append tsLt_def mergeGroup_timestamp)
next
  case (Cons c rest)
  have gc: "timestamp g < timestamp c" using Cons.prems(3) by (auto simp: tsLt_def sorted_wrt_append)
  show ?case
  proof (cases "canMerge w (last (g # gs)) c")
    case True
    have "sorted_wrt tsLt (groupLoop w agg g (gs @ [c]) rest)"
      by (rule Cons.IH) (use Cons.prems in auto)
    with True show ?thesis by simp
  next
    case False
    have "sorted_wrt tsLt (groupLoop w (agg @ [mergeGroup g gs]) c [] rest)"
    proof (rule Cons.IH)
      show "sorted_wrt tsLt (agg @ [mergeGroup g gs])"
        using Cons.prems(1,2) by (auto simp: sorted_wrt_append tsLt_def mergeGroup_timestamp)
      show "\<forall>a\<in>set (agg @ [mergeGroup g gs]). timestamp a < timestamp c"
        using Cons.prems(2) gc by (auto simp: mergeGroup_timestamp)
      show "sorted_wrt tsLt (c # [] @ rest)" using Cons.prems(3) by (simp add: sorted_wrt_append)
    qed
    with False show ?thesis by simp
  qed
qed

lemma aggregate_tsLt:
  assumes "distinct (map timestamp xs)"
  shows "sorted_wrt tsLt (aggregateEventsW xs w)"
proof (cases "length xs < 2")
  case True
  then have "xs = [] \<or> (\<exists>x. xs = [x])" by (cases xs) (auto simp: Suc_length_conv)
  then show ?thesis using True by (auto simp: aggregateEventsW_def)
next
  case False
  have s: "sorted_wrt tsLt (sort_js eventCmp xs)"
    by (rule tsLe_distinct_tsLt) (simp_all add: sort_js_tsLe distinct_sort_js assms)
  show ?thesis
  proof (cases "sort_js eventCmp xs")
    case Nil
    with False show ?thesis by (simp add: aggregateEventsW_def)
  next
    case (Cons s0 rest)
    have "sorted_wrt tsLt (groupLoop w [] s0 [] rest)"
      by (rule groupLoop_tsLt) (use s Cons in auto)
    with Cons False show ?thesis by (simp add: aggregateEventsW_def)
  qed
qed

text \<open>
  C7 (as amended). For every list of timeline events whose timestamps are pairwise distinct,
  aggregating with the default 60000 ms window a second time returns the list obtained by
  aggregating once: \<open>aggregate (aggregate events) = aggregate events\<close>.
\<close>

theorem aggregateEvents_idempotent_distinct:
  assumes "distinct (map timestamp events)"
  shows "aggregateEvents (aggregateEvents events) = aggregateEvents events"
  unfolding aggregateEvents_def
  by (rule aggregate_idem_sorted) (rule sort_js_fixed, rule aggregate_tsLt, rule assms)

theorem aggregateEvents_idempotent_distinct_witness:
  "distinct (map timestamp [ev 10 OPEN ''1'', ev 0 ADD ''2'', ev 70000 REDUCE ''3'']) \<and>
   aggregateEvents (aggregateEvents [ev 10 OPEN ''1'', ev 0 ADD ''2'', ev 70000 REDUCE ''3''])
     = aggregateEvents [ev 10 OPEN ''1'', ev 0 ADD ''2'', ev 70000 REDUCE ''3'']"
  using aggregateEvents_idempotent_distinct
          [of "[ev 10 OPEN ''1'', ev 0 ADD ''2'', ev 70000 REDUCE ''3'']"]
  by (simp add: ev_def)

text \<open>
  C7 (as stated) fails when events share a timestamp: an OPEN, an ADD and a REDUCE event of
  the same instant and the same tradeId \<open>1\<close> aggregate to the merged opening event (tradeId
  \<open>1,1\<close>) followed by the REDUCE event; sorting that result again puts the REDUCE event
  (tradeId \<open>1\<close>) first, so the second aggregation returns the two events in the other order.
\<close>

theorem aggregateEvents_not_idempotent:
  "aggregateEvents (aggregateEvents [ev 0 OPEN ''1'', ev 0 ADD ''1'', ev 0 REDUCE ''1''])
     \<noteq> aggregateEvents [ev 0 OPEN ''1'', ev 0 ADD ''1'', ev 0 REDUCE ''1'']"
  by (simp add: timeline_defs sort_js_def feeOrZero_def ev_def)

section \<open>Coin-M: the inverse-contract pair\<close>

text \<open>
  C5. In the inverse-futures (Coin-M) processor, buy 10 contracts @ 50000 followed by sell
  10 contracts @ 55000 on the long key of an instrument of contract value 100 USD yields
  exactly one trade; it is CLOSED, its realizedPnl is \<open>10 * 100 * (1/50000 - 1/55000)\<close>
  and its pnlCurrency is the base asset of the instrument.
\<close>

theorem cm_inverse_pair:
  "length (cm_processAllData inversePair [] [btcPerp] []) = 1 \<and>
   status (hd (cm_processAllData inversePair [] [btcPerp] [])) = CLOSED_S \<and>
   realizedPnl (hd (cm_processAllData inversePair [] [btcPerp] []))
     = 10 * 100 * (1 / 50000 - 1 / 55000) \<and>
   pnlCurrency (hd (cm_processAllData inversePair [] [btcPerp] [])) = baseCcy btcPerp"
  by (simp add: cm_defs bills_defs trade_defs builtin_defs inversePair_def mkFill_def btcPerp_def)

section \<open>Order of the input fills\<close>

text \<open>
  C1 (the code departs from it). The Coin-M processor sorts fills by timestamp only, and
  the sort is stable, so two fills of the same millisecond are folded in their input order:
  the reversed array gives a trade whose timeline (and tradeIds) come in the other order.
\<close>

theorem cm_order_dependent:
  "map (\<lambda>t. map price (timeline t)) (cm_processAllData sameMs [] [btcPerp] [])
     = [[50000, 50100]] \<and>
   map (\<lambda>t. map price (timeline t)) (cm_processAllData (rev sameMs) [] [btcPerp] [])
     = [[50100, 50000]]"
  by code_simp

section \<open>Margin: position flips\<close>








section \<open>Position-risk snapshots\<close>

text \<open>
  C8 (the code departs from it). In the Binance UM processor the loop over the position
  risks has no statement that writes a trade: an OPEN long trade on BTCUSDT with a matching
  snapshot keeps no currentNotionalValue. In the Coin-M processor the fold keys keep the
  case of \<open>posSide\<close> while the risk keys are lower-cased, so a fill and a snapshot that both
  say \<open>LONG\<close> do not meet. The OKX processor lower-cases both and annotates the trade.
\<close>

theorem risk_snapshot_ignored:
  "map (\<lambda>t. (status t, currentNotionalValue t))
     (um_processAllData (openLong ''BTCUSDT'' ''long'') [] [] (riskOf ''BTCUSDT'' ''long''))
     = [(OPEN_S, None)] \<and>
   map (\<lambda>t. (status t, currentNotionalValue t))
     (cm_processAllData (openLong ''BTCUSD_PERP'' ''LONG'') [] [] (riskOf ''BTCUSD_PERP'' ''LONG''))
     = [(OPEN_S, None)] \<and>
   map (\<lambda>t. (status t, currentNotionalValue t))
     (okx_processAllData (openLong ''BTC-USDT-SWAP'' ''long'') [] []
        (riskOf ''BTC-USDT-SWAP'' ''LONG''))
     = [(OPEN_S, Some 120)]"
  by code_simp

section \<open>Orphan fills\<close>

lemma spot_orphan:
  "map_get opn (instId f @ ''-spot'') = None \<Longrightarrow> toLowerCase (side f) \<noteq> ''buy''
     \<Longrightarrow> spot_step insts (cl, opn) f = (cl, opn)"
  by (simp add: spot_step_def)

lemma okx_orphan:
  "map_get opo (instId f @ ''-'' @ toLowerCase (posSide f)) = None \<Longrightarrow> isReduceOnly f
     \<Longrightarrow> okx_step insts (cl, opo) f = (cl, opo)"
  by (simp add: okx_step_def)

lemma um_orphan:
  "map_get opu (instId f @ ''-'' @ posSide f) = None \<Longrightarrow> isReduceOnly f
     \<Longrightarrow> um_step insts (cl, opu) f = (cl, opu)"
  by (auto simp: um_step_def isReduceOnly_def Let_def split: if_splits)

lemma cm_orphan:
  "map_get opn (instId f @ ''-'' @ posSide f) = None \<Longrightarrow> isReduceOnly f
     \<Longrightarrow> cm_step insts (cl, opn) f = (cl, opn)"
  by (auto simp: cm_step_def isReduceOnly_def Let_def split: if_splits)

lemma spot_orphan_example:
  "spot_processAllData (orphanSell # spotCycle) [] [] [] = spot_processAllData spotCycle [] [] [] \<and>
   map (\<lambda>t. (trade_id t, status t)) (spot_processAllData (orphanSell # spotCycle) [] [] [])
     = [(''BTCUSDT-spot-1000'', CLOSED_S)]"
  by code_simp

text \<open>
  C9. A reducing fill for a position key that has no open trade or builder leaves the
  state of the fold (closed trades and open positions) as it was, in the Spot, OKX, Binance UM
  and Coin-M processors; nothing is raised. A batch that starts with such a fill is folded
  like the batch without it. The spot sequence of an orphan sell followed by a buy/sell
  cycle gives the output of the cycle alone: exactly one trade, the CLOSED cycle.
\<close>

theorem orphan_skipped:
  "(map_get opn (instId f @ ''-spot'') = None \<and> toLowerCase (side f) \<noteq> ''buy''
      \<longrightarrow> spot_step insts (cl, opn) f = (cl, opn)) \<and>
   (map_get opo (instId f @ ''-'' @ toLowerCase (posSide f)) = None \<and> isReduceOnly f
      \<longrightarrow> okx_step insts (cl, opo) f = (cl, opo)) \<and>
   (map_get opu (instId f @ ''-'' @ posSide f) = None \<and> isReduceOnly f
      \<longrightarrow> um_step insts (cl, opu) f = (cl, opu)) \<and>
   (map_get opn (instId f @ ''-'' @ posSide f) = None \<and> isReduceOnly f
      \<longrightarrow> cm_step insts (cl, opn) f = (cl, opn)) \<and>
   (toLowerCase (side f) \<noteq> ''buy''
      \<longrightarrow> spot_processFills insts (f # fs) = spot_processFills insts fs) \<and>
   (isReduceOnly f \<longrightarrow> okx_processFills insts (f # fs) = okx_processFills insts fs) \<and>
   spot_processAllData (orphanSell # spotCycle) [] [] [] = spot_processAllData spotCycle [] [] [] \<and>
   map (\<lambda>t. (trade_id t, status t)) (spot_processAllData (orphanSell # spotCycle) [] [] [])
     = [(''BTCUSDT-spot-1000'', CLOSED_S)]"
proof -
  have a: "toLowerCase (side f) \<noteq> ''buy''
      \<longrightarrow> spot_processFills insts (f # fs) = spot_processFills insts fs"
    by (simp add: spot_processFills_def spot_orphan)
  have b: "isReduceOnly f \<longrightarrow> okx_processFills insts (f # fs) = okx_processFills insts fs"
    by (simp add: okx_processFills_def okx_orphan)
  show ?thesis
    using a b spot_orphan[of opn f insts cl] okx_orphan[of opo f insts cl]
      um_orphan[of opu f insts cl] cm_orphan[of opn f insts cl] spot_orphan_example
    by blast
qed

theorem orphan_skipped_witness:
  "map_get [] (instId orphanSell @ ''-spot'') = (None :: StandardizedTrade option) \<and>
   toLowerCase (side orphanSell) \<noteq> ''buy'' \<and>
   spot_step [] ([], []) orphanSell = ([], []) \<and>
   spot_processFills [] (orphanSell # spotCycle) = spot_processFills [] spotCycle \<and>
   map_get [] (instId okxOrphan @ ''-'' @ toLowerCase (posSide okxOrphan))
     = (None :: OkxTradeBuilder option) \<and>
   map_get [] (instId okxOrphan @ ''-'' @ posSide okxOrphan) = (None :: BinanceTradeBuilder option) \<and>
   map_get [] (instId okxOrphan @ ''-'' @ posSide okxOrphan) = (None :: StandardizedTrade option) \<and>
   isReduceOnly okxOrphan \<and>
   okx_step [] ([], []) okxOrphan = ([], []) \<and>
   um_step [] ([], []) okxOrphan = ([], []) \<and>
   cm_step [] ([], []) okxOrphan = ([], [])"
proof -
  have h1: "toLowerCase (side orphanSell) \<noteq> ''buy''" by code_simp
  have h2: "isReduceOnly okxOrphan" by code_simp
  show ?thesis
    using orphan_skipped[where opn = "[]" and f = orphanSell and insts = "[]" and cl = "[]"
                           and opo = "[]" and opu = "[]" and fs = spotCycle]
      orphan_skipped[where opn = "[]" and f = okxOrphan and insts = "[]" and cl = "[]"
                       and opo = "[]" and opu = "[]" and fs = "[]"] h1 h2
    by simp
qed

section \<open>SafeParsers\<close>




section \<open>Funding bills\<close>

text \<open>
  C4 (as stated) fails for the margin processor, which never reads the bills: an OPEN
  margin trade on BTCUSDT entered at 1000 and a FUNDING\_FEE bill of 5 for BTCUSDT at 2000
  satisfy the window test, and the trade's totalFundingFee stays 0.
\<close>

theorem margin_ignores_bills:
  "map (\<lambda>t. (symbol t, status t, isRelevant (hd (fundingBill ''BTCUSDT'' ''FUNDING_FEE'')) t,
              totalFundingFee t))
     (margin_processAllData (openLong ''BTCUSDT'' '''') (fundingBill ''BTCUSDT'' ''FUNDING_FEE'') [] [])
     = [(''BTCUSDT'', OPEN_S, True, 0)]"
  by code_simp

section \<open>Invariants of the folds over the fills\<close>

lemma map_get_Some_in: "map_get m k = Some v \<Longrightarrow> (k, v) \<in> set m"
  by (induction m) (auto split: if_splits)

lemma openInv_get: "openInv P m \<Longrightarrow> map_get m k = Some v \<Longrightarrow> P v"
  by (force simp: openInv_def dest: map_get_Some_in)

lemma set_map_set: "set (map_set k v m) \<subseteq> insert (k, v) (set m)"
  by (induction m) (auto split: if_splits)

lemma set_map_delete: "set (map_delete k m) \<subseteq> set m"
  by (induction m) (auto split: if_splits)

lemma openInv_set: "openInv P m \<Longrightarrow> P v \<Longrightarrow> openInv P (map_set k v m)"
  using set_map_set[of k v m] by (force simp: openInv_def)

lemma openInv_delete: "openInv P m \<Longrightarrow> openInv P (map_delete k m)"
  using set_map_delete[of k m] by (force simp: openInv_def)

lemma closedInv_snoc: "closedInv C cl \<Longrightarrow> C t \<Longrightarrow> closedInv C (cl @ [t])"
  by (simp add: closedInv_def)

lemma stateInv_empty: "stateInv C P ([], [])"
  by (simp add: stateInv_def closedInv_def openInv_def)

lemma foldl_inv:
  "I s \<Longrightarrow> (\<And>s x. x \<in> set xs \<Longrightarrow> I s \<Longrightarrow> I (f s x)) \<Longrightarrow> I (foldl f s xs)"
  by (induction xs arbitrary: s) auto

lemma spot_step_inv:
  assumes "stateInv C P st"
    and "toLowerCase (side f) = ''buy'' \<Longrightarrow>
           afterUpdate C P (spot_updateTradeWithFill (spot_createNewTrade insts f) f) (ts f)"
    and "\<And>t. P t \<Longrightarrow> afterUpdate C P (spot_updateTradeWithFill t f) (ts f)"
  shows "stateInv C P (spot_step insts st f)"
proof (cases "map_get (snd st) (instId f @ ''-spot'')")
  case None
  with assms(1,2) show ?thesis
    by (auto simp: spot_step_def stateInv_def afterUpdate_def Let_def
        intro: closedInv_snoc openInv_set)
next
  case (Some t0)
  with assms(1) have "P t0" by (auto simp: stateInv_def dest: openInv_get)
  from assms(3)[OF this] Some assms(1) show ?thesis
    by (auto simp: spot_step_def stateInv_def afterUpdate_def Let_def
        intro: closedInv_snoc openInv_set openInv_delete)
qed

lemma spot_processFills_inv:
  assumes "\<And>f. f \<in> set fills \<Longrightarrow> toLowerCase (side f) = ''buy'' \<Longrightarrow>
           afterUpdate C P (spot_updateTradeWithFill (spot_createNewTrade insts f) f) (ts f)"
    and "\<And>t f. f \<in> set fills \<Longrightarrow> P t \<Longrightarrow> afterUpdate C P (spot_updateTradeWithFill t f) (ts f)"
  shows "stateInv C P (spot_processFills insts fills)"
  unfolding spot_processFills_def
  by (rule foldl_inv) (auto intro: stateInv_empty spot_step_inv assms)

lemma spot_noFunding: "stateInv noFunding noFunding (spot_processFills insts fills)"
  by (rule spot_processFills_inv)
     (auto simp: afterUpdate_def noFunding_def spot_updateTradeWithFill_def spot_createNewTrade_def
        trade_defs Let_def)


lemma cm_step_inv:
  assumes "stateInv C P st"
    and "(toLowerCase (posSide f) = ''long'' \<and> toLowerCase (side f) = ''buy'') \<or>
         (toLowerCase (posSide f) = ''short'' \<and> toLowerCase (side f) = ''sell'') \<Longrightarrow>
           afterUpdate C P (cm_updateTradeWithFill insts (cm_createNewTrade insts f) f) (ts f)"
    and "\<And>t. P t \<Longrightarrow> afterUpdate C P (cm_updateTradeWithFill insts t f) (ts f)"
  shows "stateInv C P (cm_step insts st f)"
proof (cases "map_get (snd st) (instId f @ ''-'' @ posSide f)")
  case None
  with assms(1,2) show ?thesis
    by (auto simp: cm_step_def stateInv_def afterUpdate_def Let_def
        intro: closedInv_snoc openInv_set)
next
  case (Some t0)
  with assms(1) have "P t0" by (auto simp: stateInv_def dest: openInv_get)
  from assms(3)[OF this] Some assms(1) show ?thesis
    by (auto simp: cm_step_def stateInv_def afterUpdate_def Let_def
        intro: closedInv_snoc openInv_set openInv_delete)
qed

lemma cm_processFills_inv:
  assumes "\<And>f. f \<in> set fills \<Longrightarrow>
         (toLowerCase (posSide f) = ''long'' \<and> toLowerCase (side f) = ''buy'') \<or>
         (toLowerCase (posSide f) = ''short'' \<and> toLowerCase (side f) = ''sell'') \<Longrightarrow>
           afterUpdate C P (cm_updateTradeWithFill insts (cm_createNewTrade insts f) f) (ts f)"
    and "\<And>t f. f \<in> set fills \<Longrightarrow> P t \<Longrightarrow> afterUpdate C P (cm_updateTradeWithFill insts t f) (ts f)"
  shows "stateInv C P (cm_processFills insts fills)"
  unfolding cm_processFills_def
  by (rule foldl_inv) (auto intro: stateInv_empty cm_step_inv assms)

lemma cm_noFunding: "stateInv noFunding noFunding (cm_processFills insts fills)"
  by (rule cm_processFills_inv)
     (auto simp: afterUpdate_def noFunding_def cm_updateTradeWithFill_def cm_createNewTrade_def
        trade_defs Let_def)


lemma margin_step_inv:
  assumes "stateInv P P st"
    and "\<And>fl. P (margin_createNewTrade insts fl)"
    and "\<And>t fl b. P t \<Longrightarrow> P (margin_updateTradeWithFill t fl b)"
    and "\<And>t x. P t \<Longrightarrow> P (closeTrade t x)"
  shows "stateInv P P (margin_step insts st f)"
proof (cases "map_get (snd st) (instId f @ ''-margin'')")
  case None
  with assms show ?thesis
    by (auto simp: margin_step_def stateInv_def Let_def intro: openInv_set)
next
  case (Some t0)
  with assms(1) have "P t0" by (auto simp: stateInv_def dest: openInv_get)
  with Some assms show ?thesis
    by (auto simp: margin_step_def stateInv_def Let_def
        intro!: closedInv_snoc openInv_set openInv_delete)
qed

lemma margin_noFunding: "stateInv noFunding noFunding (margin_processFills insts fills)"
  unfolding margin_processFills_def
  by (rule foldl_inv, rule stateInv_empty, rule margin_step_inv)
     (auto simp: noFunding_def margin_updateTradeWithFill_def margin_createNewTrade_def
        trade_defs Let_def)

lemma um_step_inv:
  assumes "stateInv C P st"
    and "(toLowerCase (posSide f) = ''long'' \<and> toLowerCase (side f) = ''buy'') \<or>
         (toLowerCase (posSide f) = ''short'' \<and> toLowerCase (side f) = ''sell'') \<Longrightarrow>
           um_after C P (binance_newBuilder f (contractValueOf insts f))"
    and "\<And>b. P b \<Longrightarrow> um_after C P (binance_addFill b f)"
  shows "stateInv C P (um_step insts st f)"
proof (cases "map_get (snd st) (instId f @ ''-'' @ posSide f)")
  case None
  with assms(1,2) show ?thesis
    by (auto simp: um_step_def stateInv_def um_after_def contractValueOf_def Let_def
        intro: closedInv_snoc openInv_set)
next
  case (Some b0)
  with assms(1) have "P b0" by (auto simp: stateInv_def dest: openInv_get)
  from assms(3)[OF this] Some assms(1) show ?thesis
    by (auto simp: um_step_def stateInv_def um_after_def Let_def
        intro: closedInv_snoc openInv_set openInv_delete)
qed

lemma um_processFills_inv:
  assumes "\<And>f. f \<in> set fills \<Longrightarrow>
         (toLowerCase (posSide f) = ''long'' \<and> toLowerCase (side f) = ''buy'') \<or>
         (toLowerCase (posSide f) = ''short'' \<and> toLowerCase (side f) = ''sell'') \<Longrightarrow>
           um_after C P (binance_newBuilder f (contractValueOf insts f))"
    and "\<And>b f. f \<in> set fills \<Longrightarrow> P b \<Longrightarrow> um_after C P (binance_addFill b f)"
  shows "stateInv C P (um_processFills insts fills)"
  unfolding um_processFills_def
  by (rule foldl_inv) (auto intro: stateInv_empty um_step_inv assms)

lemma um_noFunding: "stateInv noFunding (\<lambda>b. noFunding (b_trade b)) (um_processFills insts fills)"
  by (rule um_processFills_inv)
     (auto simp: um_after_def noFunding_def binance_newBuilder_def binance_addFill_def
        binance_applyEvent_def binance_closeTrade_def binance_initializeTrade_def
        trade_defs Let_def)

lemma okx_step_inv:
  assumes "stateInv C P st"
    and "\<not> isReduceOnly f \<Longrightarrow>
           okx_after C P (okx_newBuilder f (contractValueOf insts f)
              (str_includes (instId f) ''-USD-'' \<and> \<not> str_includes (instId f) ''-USDT-''))"
    and "\<And>b. P b \<Longrightarrow> okx_after C P (okx_addFill b f)"
  shows "stateInv C P (okx_step insts st f)"
proof (cases "map_get (snd st) (instId f @ ''-'' @ toLowerCase (posSide f))")
  case None
  with assms(1,2) show ?thesis
    by (auto simp: okx_step_def stateInv_def okx_after_def contractValueOf_def Let_def
        intro: closedInv_snoc openInv_set)
next
  case (Some b0)
  with assms(1) have "P b0" by (auto simp: stateInv_def dest: openInv_get)
  from assms(3)[OF this] Some assms(1) show ?thesis
    by (auto simp: okx_step_def stateInv_def okx_after_def Let_def
        intro: closedInv_snoc openInv_set openInv_delete)
qed

lemma okx_processFills_inv:
  assumes "\<And>f. f \<in> set fills \<Longrightarrow> \<not> isReduceOnly f \<Longrightarrow>
           okx_after C P (okx_newBuilder f (contractValueOf insts f)
              (str_includes (instId f) ''-USD-'' \<and> \<not> str_includes (instId f) ''-USDT-''))"
    and "\<And>b f. f \<in> set fills \<Longrightarrow> P b \<Longrightarrow> okx_after C P (okx_addFill b f)"
  shows "stateInv C P (okx_processFills insts fills)"
  unfolding okx_processFills_def
  by (rule foldl_inv) (auto intro: stateInv_empty okx_step_inv assms)

lemma okx_noFunding: "stateInv noFunding (\<lambda>b. noFunding (o_trade b)) (okx_processFills insts fills)"
  by (rule okx_processFills_inv)
     (auto simp: okx_after_def noFunding_def okx_newBuilder_def okx_addFill_def
        okx_updateState_def okx_initializeTrade_def
        trade_defs Let_def)





section \<open>Bills, risks and finalization keep what holds of every trade\<close>





lemma okx_applyRisks_pres:
  assumes "\<And>t x. P t \<Longrightarrow> P (t\<lparr>currentNotionalValue := x\<rparr>)"
    and "openInv (\<lambda>b. P (o_trade b)) m"
  shows "openInv (\<lambda>b. P (o_trade b)) (okx_applyRisks risks m)"
  unfolding okx_applyRisks_def
proof (rule foldl_inv)
  show "openInv (\<lambda>b. P (o_trade b)) m" by (rule assms(2))
next
  fix s :: "(string \<times> OkxTradeBuilder) list" and x
  assume a: "openInv (\<lambda>b. P (o_trade b)) s"
  show "openInv (\<lambda>b. P (o_trade b)) (let positionKey = r_symbol x @ ''-'' @ toLowerCase (positionSide x)
       in case map_get s positionKey of None \<Rightarrow> s
          | Some b \<Rightarrow> map_set positionKey
              (b\<lparr>o_trade := (o_trade b)\<lparr>currentNotionalValue := Some (notional x)\<rparr>\<rparr>) s)"
  proof (cases "map_get s (r_symbol x @ ''-'' @ toLowerCase (positionSide x))")
    case None
    with a show ?thesis by simp
  next
    case (Some b)
    with a have "P (o_trade b)" by (auto dest: openInv_get)
    with a Some show ?thesis by (auto intro!: openInv_set assms(1))
  qed
qed





lemma spot_output:
  assumes "t \<in> set (spot_processAllData fills bills insts risks)"
    and "stateInv P P (spot_processFills (indexInstruments insts) (sort_js fillCmpTs fills))"
  shows "\<exists>t0. t = spot_finalizeTrade t0 \<and> P t0"
  using assms by (auto simp: spot_processAllData_def Let_def stateInv_def closedInv_def openInv_def map_values_def)

lemma margin_output:
  assumes "t \<in> set (margin_processAllData fills bills insts risks)"
    and "stateInv P P (margin_processFills (indexInstruments insts) (sort_js fillCmpTs fills))"
  shows "\<exists>t0. t = margin_finalizeTrade t0 \<and> P t0"
  using assms by (auto simp: margin_processAllData_def Let_def stateInv_def closedInv_def openInv_def map_values_def)




section \<open>Net PnL\<close>

text \<open>
  C2. Every trade returned by \<open>processAllData\<close> of the Binance UM, OKX, Coin-M, Spot and
  Margin processors satisfies \<open>netPnl = realizedPnl - totalCommission + totalFundingFee\<close>.
  The UM, OKX and Coin-M processors compute this expression at finalization; the Spot and
  Margin processors compute \<open>realizedPnl - totalCommission\<close> and never touch the funding
  total, which is 0.
\<close>

theorem netPnl_invariant:
  assumes "t \<in> set (um_processAllData fills bills insts risks)
             \<union> set (okx_processAllData fills bills insts risks)
             \<union> set (cm_processAllData fills bills insts risks)
             \<union> set (spot_processAllData fills bills insts risks)
             \<union> set (margin_processAllData fills bills insts risks)"
  shows "netPnl t = realizedPnl t - totalCommission t + totalFundingFee t"
proof -
  consider (um) "t \<in> set (um_processAllData fills bills insts risks)"
    | (okx) "t \<in> set (okx_processAllData fills bills insts risks)"
    | (cm) "t \<in> set (cm_processAllData fills bills insts risks)"
    | (spot) "t \<in> set (spot_processAllData fills bills insts risks)"
    | (margin) "t \<in> set (margin_processAllData fills bills insts risks)"
    using assms by auto
  then show ?thesis
  proof cases
    case um
    then obtain t0 where "t = finalizeTrade t0" by (auto simp: um_processAllData_def Let_def)
    then show ?thesis by (simp add: finalizeTrade_def Let_def)
  next
    case okx
    then obtain t0 where "t = finalizeTrade t0" by (auto simp: okx_processAllData_def Let_def)
    then show ?thesis by (simp add: finalizeTrade_def Let_def)
  next
    case cm
    then obtain t0 where "t = cm_finalizeTrade t0" by (auto simp: cm_processAllData_def Let_def)
    then show ?thesis by (simp add: cm_finalizeTrade_def Let_def)
  next
    case spot
    then obtain t0 where "t = spot_finalizeTrade t0" "noFunding t0"
      using spot_output[OF _ spot_noFunding] by blast
    then show ?thesis by (simp add: spot_finalizeTrade_def noFunding_def Let_def)
  next
    case margin
    then obtain t0 where "t = margin_finalizeTrade t0" "noFunding t0"
      using margin_output[OF _ margin_noFunding] by blast
    then show ?thesis by (simp add: margin_finalizeTrade_def noFunding_def Let_def)
  qed
qed

theorem netPnl_invariant_witness:
  "um_processAllData (fundedPair ''BTCUSDT'' 10) (fundingBills ''BTCUSDT'' ''FUNDING_FEE'') [] [] ! 0
     \<in> set (um_processAllData (fundedPair ''BTCUSDT'' 10)
               (fundingBills ''BTCUSDT'' ''FUNDING_FEE'') [] [])
       \<union> set (okx_processAllData (fundedPair ''BTCUSDT'' 10)
               (fundingBills ''BTCUSDT'' ''FUNDING_FEE'') [] [])
       \<union> set (cm_processAllData (fundedPair ''BTCUSDT'' 10)
               (fundingBills ''BTCUSDT'' ''FUNDING_FEE'') [] [])
       \<union> set (spot_processAllData (fundedPair ''BTCUSDT'' 10)
               (fundingBills ''BTCUSDT'' ''FUNDING_FEE'') [] [])
       \<union> set (margin_processAllData (fundedPair ''BTCUSDT'' 10)
               (fundingBills ''BTCUSDT'' ''FUNDING_FEE'') [] []) \<and>
   netPnl (um_processAllData (fundedPair ''BTCUSDT'' 10)
             (fundingBills ''BTCUSDT'' ''FUNDING_FEE'') [] [] ! 0)
     = realizedPnl (um_processAllData (fundedPair ''BTCUSDT'' 10)
                      (fundingBills ''BTCUSDT'' ''FUNDING_FEE'') [] [] ! 0)
       - totalCommission (um_processAllData (fundedPair ''BTCUSDT'' 10)
                           (fundingBills ''BTCUSDT'' ''FUNDING_FEE'') [] [] ! 0)
       + totalFundingFee (um_processAllData (fundedPair ''BTCUSDT'' 10)
                           (fundingBills ''BTCUSDT'' ''FUNDING_FEE'') [] [] ! 0) \<and>
   map (\<lambda>t. (realizedPnl t, totalCommission t, totalFundingFee t, netPnl t))
     (um_processAllData (fundedPair ''BTCUSDT'' 10) (fundingBills ''BTCUSDT'' ''FUNDING_FEE'') [] [])
     = [(1000, 20, - 10, 970)]"
proof -
  have e: "map (\<lambda>t. (realizedPnl t, totalCommission t, totalFundingFee t, netPnl t))
     (um_processAllData (fundedPair ''BTCUSDT'' 10) (fundingBills ''BTCUSDT'' ''FUNDING_FEE'') [] [])
     = [(1000, 20, - 10, 970)]"
    by code_simp
  then have "length (um_processAllData (fundedPair ''BTCUSDT'' 10)
                       (fundingBills ''BTCUSDT'' ''FUNDING_FEE'') [] []) = 1"
    using map_eq_imp_length_eq by fastforce
  then have m: "um_processAllData (fundedPair ''BTCUSDT'' 10)
                  (fundingBills ''BTCUSDT'' ''FUNDING_FEE'') [] [] ! 0
     \<in> set (um_processAllData (fundedPair ''BTCUSDT'' 10)
               (fundingBills ''BTCUSDT'' ''FUNDING_FEE'') [] [])"
    by simp
  show ?thesis
    using netPnl_invariant
            [of "um_processAllData (fundedPair ''BTCUSDT'' 10)
                   (fundingBills ''BTCUSDT'' ''FUNDING_FEE'') [] [] ! 0"
                "fundedPair ''BTCUSDT'' 10" "fundingBills ''BTCUSDT'' ''FUNDING_FEE''" "[]" "[]"]
          m e
    by blast
qed

section \<open>Funding attribution\<close>

lemma isRelevant_key: "windowKey t = windowKey t' \<Longrightarrow> isRelevant b t = isRelevant b t'"
  by (simp add: windowKey_def isRelevant_def)

lemma windowKey_credit [simp]: "windowKey (creditBill b t) = windowKey t"
  by (simp add: windowKey_def creditBill_def)

lemma firstMatch_key:
  "map windowKey xs = map windowKey ys \<Longrightarrow> firstMatch b xs = firstMatch b ys"
proof (induction xs arbitrary: ys)
  case Nil
  then show ?case by simp
next
  case (Cons x xs)
  then obtain y ys' where ys: "ys = y # ys'" by (cases ys) auto
  with Cons.prems have k: "windowKey x = windowKey y" and r: "map windowKey xs = map windowKey ys'"
    by auto
  from k have "symbol x = symbol y" by (simp add: windowKey_def)
  with k r Cons.IH[OF r] ys show ?case by (simp add: isRelevant_key[OF k])
qed

lemma creditFirst_keys: "map windowKey (creditFirst b xs) = map windowKey xs"
  by (induction xs) auto

lemma creditFirst_length [simp]: "length (creditFirst b xs) = length xs"
  by (induction xs) auto

lemma creditFirst_funding:
  "i < length xs \<Longrightarrow>
   totalFundingFee (creditFirst b xs ! i)
     = totalFundingFee (xs ! i) + (if firstMatch b xs = Some i then b_balChg b else 0)"
proof (induction xs arbitrary: i)
  case Nil
  then show ?case by simp
next
  case (Cons x xs)
  show ?case
  proof (cases "symbol x = b_instId b \<and> isRelevant b x")
    case True
    then show ?thesis by (cases i) (auto simp: creditBill_def)
  next
    case False
    show ?thesis
    proof (cases i)
      case 0
      with False show ?thesis by (auto simp: )
    next
      case (Suc j)
      with Cons.prems have "j < length xs" by simp
      from Cons.IH[OF this] False Suc show ?thesis by (auto simp: )
    qed
  qed
qed

lemma applyBills_foldl:
  "i < length xs \<Longrightarrow>
   length (foldl (\<lambda>trades bill. if b_type bill = BILL_TYPE_FUNDING_FEE then creditFirst bill trades else trades) xs bills) = length xs \<and>
   map windowKey (foldl (\<lambda>trades bill. if b_type bill = BILL_TYPE_FUNDING_FEE then creditFirst bill trades else trades) xs bills) = map windowKey xs \<and>
   totalFundingFee (foldl (\<lambda>trades bill. if b_type bill = BILL_TYPE_FUNDING_FEE then creditFirst bill trades else trades) xs bills ! i)
     = totalFundingFee (xs ! i) + firstMatchSum bills xs i"
proof (induction bills arbitrary: xs)
  case Nil
  then show ?case by (simp add: firstMatchSum_def)
next
  case (Cons b bills)
  let ?xs1 = "if b_type b = BILL_TYPE_FUNDING_FEE then creditFirst b xs else xs"
  have len: "length ?xs1 = length xs" by simp
  have keys: "map windowKey ?xs1 = map windowKey xs" by (simp add: creditFirst_keys)
  have fm: "firstMatch b' ?xs1 = firstMatch b' xs" for b'
    by (rule firstMatch_key[OF keys])
  have i1: "i < length ?xs1" using Cons.prems len by simp
  have step: "totalFundingFee (?xs1 ! i) = totalFundingFee (xs ! i)
      + (if b_type b = BILL_TYPE_FUNDING_FEE \<and> firstMatch b xs = Some i then b_balChg b else 0)"
    using Cons.prems by (simp add: creditFirst_funding)
  have s: "firstMatchSum (b # bills) xs i = (if b_type b = BILL_TYPE_FUNDING_FEE \<and> firstMatch b xs = Some i then b_balChg b else 0) + firstMatchSum bills ?xs1 i"
    unfolding firstMatchSum_def using fm by (simp only: ) simp
  from Cons.IH[OF i1] len keys step s show ?case
    by (simp only: foldl_Cons) simp
qed

lemma binance_applyBills_funding:
  "i < length xs \<Longrightarrow>
   totalFundingFee (binance_applyBills bills xs ! i) = totalFundingFee (xs ! i) + firstMatchSum bills xs i"
  unfolding binance_applyBills_def using applyBills_foldl[of i xs bills] by blast

lemma binance_applyBills_length: "length (binance_applyBills bills xs) = length xs"
proof (cases xs)
  case Nil
  have "foldl (\<lambda>trades bill. if b_type bill = BILL_TYPE_FUNDING_FEE then creditFirst bill trades else trades) [] bs = []" for bs
    by (induction bs) auto
  with Nil show ?thesis by (simp add: binance_applyBills_def)
next
  case (Cons x xs')
  then have "0 < length xs" by simp
  from applyBills_foldl[OF this, of bills] show ?thesis by (simp add: binance_applyBills_def)
qed

lemma firstMatch_iff:
  "firstMatch b xs = Some i \<longleftrightarrow>
     i < length xs \<and> symbol (xs ! i) = b_instId b \<and> isRelevant b (xs ! i) \<and>
     (\<forall>j<i. \<not> (symbol (xs ! j) = b_instId b \<and> isRelevant b (xs ! j)))"
proof (induction xs arbitrary: i)
  case Nil
  then show ?case by simp
next
  case (Cons x xs)
  show ?case
  proof (cases "symbol x = b_instId b \<and> isRelevant b x")
    case True
    then show ?thesis by (cases i) auto
  next
    case False
    show ?thesis
    proof (cases i)
      case 0
      with False show ?thesis by auto
    next
      case (Suc k)
      have "(\<forall>j<Suc k. \<not> (symbol ((x # xs) ! j) = b_instId b \<and> isRelevant b ((x # xs) ! j)))
           \<longleftrightarrow> (\<forall>j<k. \<not> (symbol (xs ! j) = b_instId b \<and> isRelevant b (xs ! j)))"
        using False by (auto simp: less_Suc_eq_0_disj)
      with False Suc Cons.IH[of k] show ?thesis by (auto simp: )
    qed
  qed
qed

lemma okx_credit_foldl:
  "windowKey (foldl (\<lambda>t' bill. if isRelevant bill t' then creditBill bill t' else t') t bs) = windowKey t \<and>
   totalFundingFee (foldl (\<lambda>t' bill. if isRelevant bill t' then creditBill bill t' else t') t bs)
     = totalFundingFee t + sum_list (map b_balChg (filter (\<lambda>bill. isRelevant bill t) bs))"
proof (induction bs arbitrary: t)
  case Nil
  then show ?case by simp
next
  case (Cons b bs)
  let ?t1 = "if isRelevant b t then creditBill b t else t"
  have k: "windowKey ?t1 = windowKey t" by simp
  have r: "isRelevant b' ?t1 = isRelevant b' t" for b' by (rule isRelevant_key[OF k])
  have f: "totalFundingFee ?t1 = totalFundingFee t + (if isRelevant b t then b_balChg b else 0)"
    by (simp add: creditBill_def)
  from Cons.IH[of ?t1] k r f show ?case by (simp only: foldl_Cons) simp
qed

lemma fundingSum_key: "windowKey t = windowKey t' \<Longrightarrow> fundingSum bills ty t = fundingSum bills ty t'"
  unfolding fundingSum_def
  by (simp add: isRelevant_key[of t t'] windowKey_def cong: filter_cong)

lemma okx_creditTrade_funding:
  assumes "noFunding t"
  shows "fundingIs bills (okx_creditTrade bills t)"
proof -
  let ?bs = "filter (\<lambda>bill. b_type bill = ''8'' \<and> b_instId bill = symbol t) bills"
  have k: "windowKey (okx_creditTrade bills t) = windowKey t"
    and f: "totalFundingFee (okx_creditTrade bills t)
        = totalFundingFee t + sum_list (map b_balChg (filter (\<lambda>bill. isRelevant bill t) ?bs))"
    using okx_credit_foldl[of t ?bs] by (simp_all add: okx_creditTrade_def)
  have "filter (\<lambda>bill. isRelevant bill t) ?bs
      = filter (\<lambda>bill. b_type bill = ''8'' \<and> b_instId bill = symbol t \<and> isRelevant bill t) bills"
    by (simp add: conj_commute conj_left_commute cong: filter_cong)
  with f assms have "totalFundingFee (okx_creditTrade bills t) = fundingSum bills ''8'' t"
    by (simp add: fundingSum_def noFunding_def)
  with fundingSum_key[OF k] show ?thesis by (simp add: fundingIs_def)
qed

lemma fundingIs_notional: "fundingIs bills t \<Longrightarrow> fundingIs bills (t\<lparr>currentNotionalValue := x\<rparr>)"
  by (simp add: fundingIs_def fundingSum_def isRelevant_def)

lemma fundingIs_finalize: "fundingIs bills t \<Longrightarrow> fundingIs bills (finalizeTrade t)"
  by (simp add: fundingIs_def fundingSum_def isRelevant_def finalizeTrade_def Let_def)

lemma okx_funding:
  assumes "t \<in> set (okx_processAllData fills bills insts risks)"
  shows "totalFundingFee t = fundingSum bills ''8'' t"
proof -
  let ?st = "okx_processFills (indexInstruments insts) (sort_js fillCmpTsId fills)"
  have nf: "stateInv noFunding (\<lambda>b. noFunding (o_trade b)) ?st" by (rule okx_noFunding)
  have c: "closedInv (fundingIs bills) (map (okx_creditTrade bills) (fst ?st))"
    using nf by (auto simp: stateInv_def closedInv_def intro: okx_creditTrade_funding)
  have "openInv (\<lambda>b. fundingIs bills (o_trade b))
          (map (\<lambda>kb. (fst kb, (snd kb)\<lparr>o_trade := okx_creditTrade bills (o_trade (snd kb))\<rparr>)) (snd ?st))"
    using nf by (auto simp: stateInv_def openInv_def intro: okx_creditTrade_funding)
  then have o: "openInv (\<lambda>b. fundingIs bills (o_trade b)) (okx_applyRisks risks
          (map (\<lambda>kb. (fst kb, (snd kb)\<lparr>o_trade := okx_creditTrade bills (o_trade (snd kb))\<rparr>)) (snd ?st)))"
    by (intro okx_applyRisks_pres[where P = "fundingIs bills"] fundingIs_notional)
  from assms obtain t0 where "t = finalizeTrade t0" "fundingIs bills t0"
    using c o
    by (auto simp: okx_processAllData_def okx_applyBillsAndRisks_def Let_def closedInv_def
        openInv_def map_values_def)
  then show ?thesis using fundingIs_finalize by (auto simp: fundingIs_def)
qed

lemma map_set_same:
  "map_get m k = Some v \<Longrightarrow> g v' = g v \<Longrightarrow> map (\<lambda>kv. g (snd kv)) (map_set k v' m) = map (\<lambda>kv. g (snd kv)) m"
  by (induction m) (auto split: if_splits)

lemma cm_applyRisks_same:
  assumes "\<And>t x. g (t\<lparr>currentNotionalValue := x\<rparr>) = g t"
  shows "map (\<lambda>kv. g (snd kv)) (cm_applyRisks risks m) = map (\<lambda>kv. g (snd kv)) m"
  unfolding cm_applyRisks_def
proof (rule foldl_inv[where I = "\<lambda>s. map (\<lambda>kv. g (snd kv)) s = map (\<lambda>kv. g (snd kv)) m"])
  show "map (\<lambda>kv. g (snd kv)) m = map (\<lambda>kv. g (snd kv)) m" by simp
next
  fix s :: "(string \<times> StandardizedTrade) list" and r
  assume a: "map (\<lambda>kv. g (snd kv)) s = map (\<lambda>kv. g (snd kv)) m"
  show "map (\<lambda>kv. g (snd kv))
          (let positionKey = r_symbol r @ ''-'' @ toLowerCase (positionSide r)
           in case map_get s positionKey of None \<Rightarrow> s
              | Some t \<Rightarrow> map_set positionKey (t\<lparr>currentNotionalValue := Some (notional r)\<rparr>) s)
        = map (\<lambda>kv. g (snd kv)) m"
  proof (cases "map_get s (r_symbol r @ ''-'' @ toLowerCase (positionSide r))")
    case None
    with a show ?thesis by simp
  next
    case (Some t)
    have "map (\<lambda>kv. g (snd kv))
            (map_set (r_symbol r @ ''-'' @ toLowerCase (positionSide r))
               (t\<lparr>currentNotionalValue := Some (notional r)\<rparr>) s)
          = map (\<lambda>kv. g (snd kv)) s"
      by (rule map_set_same[OF Some]) (rule assms)
    with a Some show ?thesis by simp
  qed
qed

lemma rebuild_trades:
  "length bs = length trs \<Longrightarrow>
   map (\<lambda>x. b_trade (snd x)) (map (\<lambda>(kb, t). (fst kb, (snd kb)\<lparr>b_trade := t\<rparr>)) (zip bs trs)) = trs"
  by (induction bs trs rule: list_induct2) auto

lemma cm_funding_map:
  "map totalFundingFee (cm_processAllData fills bills insts risks)
     = map totalFundingFee (binance_applyBills bills (cm_foldedTrades insts fills))"
proof -
  let ?st = "cm_processFills (indexInstruments insts) (sort_js fillCmpTs fills)"
  let ?all = "binance_applyBills bills (fst ?st @ map_values (snd ?st))"
  let ?n = "length (fst ?st)"
  have len: "length ?all = ?n + length (snd ?st)"
    by (simp add: binance_applyBills_length map_values_def)
  have z: "map snd (rekey (snd ?st) (drop ?n ?all)) = drop ?n ?all"
    using len by (simp add: rekey_def)
  have "map (\<lambda>kv. totalFundingFee (snd kv)) (cm_applyRisks risks (rekey (snd ?st) (drop ?n ?all)))
      = map (\<lambda>kv. totalFundingFee (snd kv)) (rekey (snd ?st) (drop ?n ?all))"
    by (rule cm_applyRisks_same) simp
  also have "\<dots> = map totalFundingFee (map snd (rekey (snd ?st) (drop ?n ?all)))"
    by simp
  also have "\<dots> = map totalFundingFee (drop ?n ?all)" by (simp only: z)
  finally have o: "map (\<lambda>kv. totalFundingFee (snd kv)) (cm_applyRisks risks (rekey (snd ?st) (drop ?n ?all)))
      = map totalFundingFee (drop ?n ?all)" .
  have "map totalFundingFee (cm_processAllData fills bills insts risks)
      = map totalFundingFee (take ?n ?all) @ map totalFundingFee (drop ?n ?all)"
    using o by (simp add: cm_processAllData_def cm_applyBillsAndRisks_def Let_def map_values_def
        cm_finalizeTrade_def comp_def)
  also have "\<dots> = map totalFundingFee ?all"
    by (simp only: map_append[symmetric] append_take_drop_id)
  finally show ?thesis by (simp add: cm_foldedTrades_def)
qed

lemma um_funding_map:
  "map totalFundingFee (um_processAllData fills bills insts risks)
     = map totalFundingFee (binance_applyBills bills (um_foldedTrades insts fills))"
proof -
  let ?st = "um_processFills (indexInstruments insts) (sort_js fillCmpTs fills)"
  let ?all = "binance_applyBills bills (fst ?st @ map b_trade (map_values (snd ?st)))"
  let ?n = "length (fst ?st)"
  have len: "length ?all = ?n + length (snd ?st)"
    by (simp add: binance_applyBills_length map_values_def)
  have k: "foldl (\<lambda>m rawRisk. m) m0 risks = m0" for m0 :: "(string \<times> BinanceTradeBuilder) list"
    by (induction risks) auto
  have z: "map (\<lambda>x. b_trade (snd x))
             (map (\<lambda>(kb, t). (fst kb, (snd kb)\<lparr>b_trade := t\<rparr>)) (zip (snd ?st) (drop ?n ?all)))
           = drop ?n ?all"
    using len by (intro rebuild_trades) simp
  have "map totalFundingFee (um_processAllData fills bills insts risks)
      = map totalFundingFee (take ?n ?all) @ map totalFundingFee
          (map (\<lambda>x. b_trade (snd x))
             (map (\<lambda>(kb, t). (fst kb, (snd kb)\<lparr>b_trade := t\<rparr>)) (zip (snd ?st) (drop ?n ?all))))"
    by (simp add: um_processAllData_def um_applyBillsAndRisks_def Let_def map_values_def
        finalizeTrade_def comp_def k)
  also have "\<dots> = map totalFundingFee ?all"
    by (simp only: z map_append[symmetric] append_take_drop_id)
  finally show ?thesis by (simp add: um_foldedTrades_def)
qed

lemma cm_folded_noFunding: "t \<in> set (cm_foldedTrades insts fills) \<Longrightarrow> totalFundingFee t = 0"
  using cm_noFunding[of "indexInstruments insts" "sort_js fillCmpTs fills"]
  by (auto simp: cm_foldedTrades_def stateInv_def closedInv_def openInv_def map_values_def noFunding_def)

lemma um_folded_noFunding: "t \<in> set (um_foldedTrades insts fills) \<Longrightarrow> totalFundingFee t = 0"
  using um_noFunding[of "indexInstruments insts" "sort_js fillCmpTs fills"]
  by (auto simp: um_foldedTrades_def stateInv_def closedInv_def openInv_def map_values_def noFunding_def)

lemma cm_funding:
  assumes "i < length (cm_foldedTrades insts fills)"
  shows "totalFundingFee (cm_processAllData fills bills insts risks ! i)
          = firstMatchSum bills (cm_foldedTrades insts fills) i"
proof -
  have l: "length (cm_processAllData fills bills insts risks) = length (cm_foldedTrades insts fills)"
    using arg_cong[OF cm_funding_map[of fills bills insts risks], of length]
    by (simp add: binance_applyBills_length)
  have "totalFundingFee (cm_processAllData fills bills insts risks ! i)
      = map totalFundingFee (cm_processAllData fills bills insts risks) ! i"
    using assms l by simp
  also have "\<dots> = totalFundingFee (binance_applyBills bills (cm_foldedTrades insts fills) ! i)"
    using assms by (simp only: cm_funding_map) (simp add: binance_applyBills_length)
  also have "\<dots> = totalFundingFee (cm_foldedTrades insts fills ! i)
                    + firstMatchSum bills (cm_foldedTrades insts fills) i"
    by (rule binance_applyBills_funding[OF assms])
  also have "totalFundingFee (cm_foldedTrades insts fills ! i) = 0"
    using assms by (intro cm_folded_noFunding[of _ insts fills] nth_mem)
  finally show ?thesis by simp
qed

lemma um_funding:
  assumes "i < length (um_foldedTrades insts fills)"
  shows "totalFundingFee (um_processAllData fills bills insts risks ! i)
          = firstMatchSum bills (um_foldedTrades insts fills) i"
proof -
  have l: "length (um_processAllData fills bills insts risks) = length (um_foldedTrades insts fills)"
    using arg_cong[OF um_funding_map[of fills bills insts risks], of length]
    by (simp add: binance_applyBills_length)
  have "totalFundingFee (um_processAllData fills bills insts risks ! i)
      = map totalFundingFee (um_processAllData fills bills insts risks) ! i"
    using assms l by simp
  also have "\<dots> = totalFundingFee (binance_applyBills bills (um_foldedTrades insts fills) ! i)"
    using assms by (simp only: um_funding_map) (simp add: binance_applyBills_length)
  also have "\<dots> = totalFundingFee (um_foldedTrades insts fills ! i)
                    + firstMatchSum bills (um_foldedTrades insts fills) i"
    by (rule binance_applyBills_funding[OF assms])
  also have "totalFundingFee (um_foldedTrades insts fills ! i) = 0"
    using assms by (intro um_folded_noFunding[of _ insts fills] nth_mem)
  finally show ?thesis by simp
qed

lemma spot_margin_noFunding:
  "t \<in> set (spot_processAllData fills bills insts risks) \<union> set (margin_processAllData fills bills insts risks)
    \<Longrightarrow> totalFundingFee t = 0"
proof -
  assume "t \<in> set (spot_processAllData fills bills insts risks) \<union> set (margin_processAllData fills bills insts risks)"
  then consider (spot) "t \<in> set (spot_processAllData fills bills insts risks)"
    | (margin) "t \<in> set (margin_processAllData fills bills insts risks)" by auto
  then show ?thesis
  proof cases
    case spot
    then obtain t0 where "t = spot_finalizeTrade t0" "noFunding t0"
      using spot_output[OF _ spot_noFunding] by blast
    then show ?thesis by (simp add: spot_finalizeTrade_def noFunding_def Let_def)
  next
    case margin
    then obtain t0 where "t = margin_finalizeTrade t0" "noFunding t0"
      using margin_output[OF _ margin_noFunding] by blast
    then show ?thesis by (simp add: margin_finalizeTrade_def noFunding_def Let_def)
  qed
qed

lemma applyBills_keys: "map windowKey (binance_applyBills bills xs) = map windowKey xs"
proof (cases xs)
  case Nil
  have "foldl (\<lambda>trades bill. if b_type bill = BILL_TYPE_FUNDING_FEE then creditFirst bill trades else trades) [] bs = []" for bs
    by (induction bs) auto
  with Nil show ?thesis by (simp add: binance_applyBills_def)
next
  case (Cons x xs')
  then have "0 < length xs" by simp
  from applyBills_foldl[OF this, of bills] show ?thesis by (simp add: binance_applyBills_def)
qed

lemma cm_output_map:
  assumes "\<And>t x. g (t\<lparr>currentNotionalValue := x\<rparr>) = g t" and "\<And>t. g (cm_finalizeTrade t) = g t"
  shows "map g (cm_processAllData fills bills insts risks)
     = map g (binance_applyBills bills (cm_foldedTrades insts fills))"
proof -
  let ?st = "cm_processFills (indexInstruments insts) (sort_js fillCmpTs fills)"
  let ?all = "binance_applyBills bills (fst ?st @ map_values (snd ?st))"
  let ?n = "length (fst ?st)"
  have len: "length ?all = ?n + length (snd ?st)"
    by (simp add: binance_applyBills_length map_values_def)
  have z: "map snd (rekey (snd ?st) (drop ?n ?all)) = drop ?n ?all"
    using len by (simp add: rekey_def)
  have "map (\<lambda>kv. g (snd kv)) (cm_applyRisks risks (rekey (snd ?st) (drop ?n ?all)))
      = map (\<lambda>kv. g (snd kv)) (rekey (snd ?st) (drop ?n ?all))"
    by (rule cm_applyRisks_same) (rule assms(1))
  also have "\<dots> = map g (map snd (rekey (snd ?st) (drop ?n ?all)))"
    by simp
  also have "\<dots> = map g (drop ?n ?all)" by (simp only: z)
  finally have o: "map (\<lambda>kv. g (snd kv)) (cm_applyRisks risks (rekey (snd ?st) (drop ?n ?all)))
      = map g (drop ?n ?all)" .
  have "map g (cm_processAllData fills bills insts risks)
      = map g (take ?n ?all) @ map g (drop ?n ?all)"
    using o by (simp add: cm_processAllData_def cm_applyBillsAndRisks_def Let_def map_values_def
        assms(2) comp_def)
  also have "\<dots> = map g ?all"
    by (simp only: map_append[symmetric] append_take_drop_id)
  finally show ?thesis by (simp add: cm_foldedTrades_def)
qed

lemma um_output_map:
  assumes "\<And>t. g (finalizeTrade t) = g t"
  shows "map g (um_processAllData fills bills insts risks)
     = map g (binance_applyBills bills (um_foldedTrades insts fills))"
proof -
  let ?st = "um_processFills (indexInstruments insts) (sort_js fillCmpTs fills)"
  let ?all = "binance_applyBills bills (fst ?st @ map b_trade (map_values (snd ?st)))"
  let ?n = "length (fst ?st)"
  have len: "length ?all = ?n + length (snd ?st)"
    by (simp add: binance_applyBills_length map_values_def)
  have k: "foldl (\<lambda>m rawRisk. m) m0 risks = m0" for m0 :: "(string \<times> BinanceTradeBuilder) list"
    by (induction risks) auto
  have z: "map (\<lambda>x. b_trade (snd x))
             (map (\<lambda>(kb, t). (fst kb, (snd kb)\<lparr>b_trade := t\<rparr>)) (zip (snd ?st) (drop ?n ?all)))
           = drop ?n ?all"
    using len by (intro rebuild_trades) simp
  have "map g (um_processAllData fills bills insts risks)
      = map g (take ?n ?all) @ map g
          (map (\<lambda>x. b_trade (snd x))
             (map (\<lambda>(kb, t). (fst kb, (snd kb)\<lparr>b_trade := t\<rparr>)) (zip (snd ?st) (drop ?n ?all))))"
    by (simp add: um_processAllData_def um_applyBillsAndRisks_def Let_def map_values_def
        assms comp_def k)
  also have "\<dots> = map g ?all"
    by (simp only: z map_append[symmetric] append_take_drop_id)
  finally show ?thesis by (simp add: um_foldedTrades_def)
qed

lemma firstMatchSum_key:
  "map windowKey xs = map windowKey ys \<Longrightarrow> firstMatchSum bills xs i = firstMatchSum bills ys i"
  unfolding firstMatchSum_def by (simp add: firstMatch_key[of xs ys])

lemma windowKey_finalize [simp]: "windowKey (finalizeTrade t) = windowKey t"
  by (simp add: windowKey_def finalizeTrade_def Let_def)

lemma windowKey_cm_finalize [simp]: "windowKey (cm_finalizeTrade t) = windowKey t"
  by (simp add: windowKey_def cm_finalizeTrade_def Let_def)

lemma cm_funding_out:
  assumes "i < length (cm_processAllData fills bills insts risks)"
  shows "totalFundingFee (cm_processAllData fills bills insts risks ! i)
          = firstMatchSum bills (cm_processAllData fills bills insts risks) i"
proof -
  have "map windowKey (cm_processAllData fills bills insts risks)
         = map windowKey (binance_applyBills bills (cm_foldedTrades insts fills))"
    by (rule cm_output_map) (simp_all add: windowKey_def cm_finalizeTrade_def Let_def)
  then have k: "map windowKey (cm_processAllData fills bills insts risks)
         = map windowKey (cm_foldedTrades insts fills)"
    by (simp add: applyBills_keys)
  then have "length (cm_processAllData fills bills insts risks) = length (cm_foldedTrades insts fills)"
    using map_eq_imp_length_eq by blast
  with assms have "i < length (cm_foldedTrades insts fills)" by simp
  from cm_funding[OF this] firstMatchSum_key[OF k] show ?thesis by simp
qed

lemma um_funding_out:
  assumes "i < length (um_processAllData fills bills insts risks)"
  shows "totalFundingFee (um_processAllData fills bills insts risks ! i)
          = firstMatchSum bills (um_processAllData fills bills insts risks) i"
proof -
  have "map windowKey (um_processAllData fills bills insts risks)
         = map windowKey (binance_applyBills bills (um_foldedTrades insts fills))"
    by (rule um_output_map) (simp_all add: windowKey_def finalizeTrade_def Let_def)
  then have k: "map windowKey (um_processAllData fills bills insts risks)
         = map windowKey (um_foldedTrades insts fills)"
    by (simp add: applyBills_keys)
  then have "length (um_processAllData fills bills insts risks) = length (um_foldedTrades insts fills)"
    using map_eq_imp_length_eq by blast
  with assms have "i < length (um_foldedTrades insts fills)" by simp
  from um_funding[OF this] firstMatchSum_key[OF k] show ?thesis by simp
qed

text \<open>
  C4 (as amended). A funding bill counts for a trade when the instruments match and
  \<open>bill.timestamp >= trade.entryTime\<close> and (the trade is OPEN or
  \<open>bill.timestamp <= trade.exitTime\<close>). In the OKX processor the totalFundingFee of every
  returned trade is the sum of the balance changes of all type-8 bills that count for it (no
  early exit). In the Binance UM (linear) and Coin-M (inverse) processors the totalFundingFee of
  the returned trade at index \<open>i\<close> is the sum over the FUNDING\_FEE bills whose first
  counting trade, in the order of the returned list, is the one at index \<open>i\<close>
  (first match wins). The Spot and the Margin processor do not read the bills: the
  totalFundingFee of their trades is 0.
\<close>

theorem funding_attribution:
  "(t \<in> set (okx_processAllData fills bills insts risks)
      \<longrightarrow> totalFundingFee t = fundingSum bills ''8'' t) \<and>
   (i < length (um_processAllData fills bills insts risks)
      \<longrightarrow> totalFundingFee (um_processAllData fills bills insts risks ! i)
            = firstMatchSum bills (um_processAllData fills bills insts risks) i) \<and>
   (i < length (cm_processAllData fills bills insts risks)
      \<longrightarrow> totalFundingFee (cm_processAllData fills bills insts risks ! i)
            = firstMatchSum bills (cm_processAllData fills bills insts risks) i) \<and>
   (t \<in> set (spot_processAllData fills bills insts risks)
          \<union> set (margin_processAllData fills bills insts risks)
      \<longrightarrow> totalFundingFee t = 0)"
  using okx_funding[of t fills bills insts risks] um_funding_out[of i fills bills insts risks]
    cm_funding_out[of i fills bills insts risks] spot_margin_noFunding[of t fills bills insts risks]
  by blast

theorem funding_attribution_witness:
  "hd (okx_processAllData (fundedPair ''BTC-USDT-SWAP'' (- 10))
         (fundingBills ''BTC-USDT-SWAP'' ''8'') [] [])
     \<in> set (okx_processAllData (fundedPair ''BTC-USDT-SWAP'' (- 10))
               (fundingBills ''BTC-USDT-SWAP'' ''8'') [] []) \<and>
   totalFundingFee (hd (okx_processAllData (fundedPair ''BTC-USDT-SWAP'' (- 10))
         (fundingBills ''BTC-USDT-SWAP'' ''8'') [] []))
     = fundingSum (fundingBills ''BTC-USDT-SWAP'' ''8'') ''8''
         (hd (okx_processAllData (fundedPair ''BTC-USDT-SWAP'' (- 10))
                (fundingBills ''BTC-USDT-SWAP'' ''8'') [] [])) \<and>
   0 < length (um_processAllData (fundedPair ''BTCUSDT'' 10)
                 (fundingBills ''BTCUSDT'' ''FUNDING_FEE'') [] []) \<and>
   totalFundingFee (um_processAllData (fundedPair ''BTCUSDT'' 10)
                      (fundingBills ''BTCUSDT'' ''FUNDING_FEE'') [] [] ! 0)
     = firstMatchSum (fundingBills ''BTCUSDT'' ''FUNDING_FEE'')
         (um_processAllData (fundedPair ''BTCUSDT'' 10)
            (fundingBills ''BTCUSDT'' ''FUNDING_FEE'') [] []) 0 \<and>
   0 < length (cm_processAllData (fundedPair ''BTCUSD_PERP'' 0)
                 (fundingBills ''BTCUSD_PERP'' ''FUNDING_FEE'') [btcPerp] []) \<and>
   totalFundingFee (cm_processAllData (fundedPair ''BTCUSD_PERP'' 0)
                      (fundingBills ''BTCUSD_PERP'' ''FUNDING_FEE'') [btcPerp] [] ! 0)
     = firstMatchSum (fundingBills ''BTCUSD_PERP'' ''FUNDING_FEE'')
         (cm_processAllData (fundedPair ''BTCUSD_PERP'' 0)
            (fundingBills ''BTCUSD_PERP'' ''FUNDING_FEE'') [btcPerp] []) 0 \<and>
   hd (spot_processAllData spotCycle (fundingBills ''BTCUSDT'' ''FUNDING_FEE'') [] [])
     \<in> set (spot_processAllData spotCycle (fundingBills ''BTCUSDT'' ''FUNDING_FEE'') [] [])
       \<union> set (margin_processAllData spotCycle (fundingBills ''BTCUSDT'' ''FUNDING_FEE'') [] []) \<and>
   totalFundingFee (hd (spot_processAllData spotCycle (fundingBills ''BTCUSDT'' ''FUNDING_FEE'') [] []))
     = 0 \<and>
   map totalFundingFee (okx_processAllData (fundedPair ''BTC-USDT-SWAP'' (- 10))
                          (fundingBills ''BTC-USDT-SWAP'' ''8'') [] []) = [- 10] \<and>
   map totalFundingFee (um_processAllData (fundedPair ''BTCUSDT'' 10)
                          (fundingBills ''BTCUSDT'' ''FUNDING_FEE'') [] []) = [- 10] \<and>
   map totalFundingFee (cm_processAllData (fundedPair ''BTCUSD_PERP'' 0)
                          (fundingBills ''BTCUSD_PERP'' ''FUNDING_FEE'') [btcPerp] []) = [- 10]"
proof -
  have e1: "map totalFundingFee (okx_processAllData (fundedPair ''BTC-USDT-SWAP'' (- 10))
                          (fundingBills ''BTC-USDT-SWAP'' ''8'') [] []) = [- 10]"
    by code_simp
  have e2: "map totalFundingFee (um_processAllData (fundedPair ''BTCUSDT'' 10)
                          (fundingBills ''BTCUSDT'' ''FUNDING_FEE'') [] []) = [- 10]"
    by code_simp
  have e3: "map totalFundingFee (cm_processAllData (fundedPair ''BTCUSD_PERP'' 0)
                          (fundingBills ''BTCUSD_PERP'' ''FUNDING_FEE'') [btcPerp] []) = [- 10]"
    by code_simp
  have e4: "map totalFundingFee
              (spot_processAllData spotCycle (fundingBills ''BTCUSDT'' ''FUNDING_FEE'') [] []) = [0]"
    by code_simp
  have n1: "okx_processAllData (fundedPair ''BTC-USDT-SWAP'' (- 10))
               (fundingBills ''BTC-USDT-SWAP'' ''8'') [] [] \<noteq> []"
    using e1 by auto
  have n2: "0 < length (um_processAllData (fundedPair ''BTCUSDT'' 10)
                 (fundingBills ''BTCUSDT'' ''FUNDING_FEE'') [] [])"
    using e2 by auto
  have n3: "0 < length (cm_processAllData (fundedPair ''BTCUSD_PERP'' 0)
                 (fundingBills ''BTCUSD_PERP'' ''FUNDING_FEE'') [btcPerp] [])"
    using e3 by auto
  have n4: "spot_processAllData spotCycle (fundingBills ''BTCUSDT'' ''FUNDING_FEE'') [] [] \<noteq> []"
    using e4 by auto
  show ?thesis
    using funding_attribution
            [of "hd (okx_processAllData (fundedPair ''BTC-USDT-SWAP'' (- 10))
                       (fundingBills ''BTC-USDT-SWAP'' ''8'') [] [])"
                "fundedPair ''BTC-USDT-SWAP'' (- 10)" "fundingBills ''BTC-USDT-SWAP'' ''8''"
                "[]" "[]" 0]
          funding_attribution
            [of "hd (spot_processAllData spotCycle (fundingBills ''BTCUSDT'' ''FUNDING_FEE'') [] [])"
                "fundedPair ''BTCUSDT'' 10" "fundingBills ''BTCUSDT'' ''FUNDING_FEE''" "[]" "[]" 0]
          funding_attribution
            [of "hd (spot_processAllData spotCycle (fundingBills ''BTCUSDT'' ''FUNDING_FEE'') [] [])"
                "fundedPair ''BTCUSD_PERP'' 0" "fundingBills ''BTCUSD_PERP'' ''FUNDING_FEE''"
                "[btcPerp]" "[]" 0]
          funding_attribution
            [of "hd (spot_processAllData spotCycle (fundingBills ''BTCUSDT'' ''FUNDING_FEE'') [] [])"
                spotCycle "fundingBills ''BTCUSDT'' ''FUNDING_FEE''" "[]" "[]" 0]
          e1 e2 e3 n1 n2 n3 n4
    by simp
qed

section \<open>Running position size\<close>
















end
